theory Spec2Isabelle
  imports Complex_Main "HOL-Library.Log_Nat"
begin

section \<open>Numbers and number formatting of the host language\<close>

text \<open>
  A number of the program is a finite IEEE-754 double, represented by the rational it
  denotes. The two arithmetic operations the route conversion uses are modelled exactly:
  division (the exact quotient rounded to the nearest double, ties to the even
  significand) and \<^verbatim>\<open>Number.prototype.toFixed\<close>.
\<close>

type_synonym number = rat

definition pow2 :: "int \<Rightarrow> rat" where
  "pow2 k = (if 0 \<le> k then 2 ^ nat k else 1 / 2 ^ nat (- k))"

text \<open>\<open>binade x\<close> is the exponent \<open>e\<close> with \<open>2^e \<le> x < 2^(e+1)\<close>, for \<open>x > 0\<close>.\<close>

definition binade :: "rat \<Rightarrow> int" where
  "binade x =
     (let k = bitlen (fst (quotient_of x)) - bitlen (snd (quotient_of x))
      in if pow2 k \<le> x then k else k - 1)"

definition round_half_even :: "rat \<Rightarrow> int" where
  "round_half_even x =
     (let f = \<lfloor>x\<rfloor>; r = x - of_int f
      in if r < 1 / 2 then f else if 1 / 2 < r then f + 1
         else if even f then f else f + 1)"

text \<open>
  \<open>fl x\<close> rounds a rational to the nearest double: 53 significant bits, exponents from
  \<open>-1022\<close> (below that the spacing stays \<open>2^-1074\<close>, the subnormal range). Overflow to
  infinity (results of magnitude \<open>2^1024\<close> and more) is outside the model; a double
  divided by \<open>1000\<close> or by \<open>60\<close> never overflows.
\<close>

definition fl :: "rat \<Rightarrow> number" where
  "fl x =
     (if x = 0 then 0
      else let a = \<bar>x\<bar>; e = max (binade a) (- 1022); u = pow2 (e - 52)
           in sgn x * of_int (round_half_even (a / u)) * u)"

definition js_div :: "number \<Rightarrow> number \<Rightarrow> number" where
  "js_div a b = fl (a / b)"

definition digit_char :: "nat \<Rightarrow> char" where
  "digit_char d = char_of (48 + d)"

fun decimal :: "nat \<Rightarrow> string" where
  "decimal n = (if n < 10 then [digit_char n] else decimal (n div 10) @ [digit_char (n mod 10)])"

declare decimal.simps [simp del]

text \<open>
  \<^verbatim>\<open>x.toFixed(f)\<close> for a finite \<open>x\<close>, following the language standard step by step:
  the sign is split off; a magnitude of \<open>10^21\<close> or more is printed by the general
  number-to-string conversion (taken as the parameter \<open>toString\<close>); otherwise \<open>n\<close> is the
  integer with \<open>n / 10^f\<close> closest to \<open>x\<close> (the larger one of two), its decimal digits are
  left-padded with zeros to \<open>f + 1\<close> characters and the point is put before the last \<open>f\<close>.
\<close>

definition toFixed :: "(number \<Rightarrow> string) \<Rightarrow> nat \<Rightarrow> number \<Rightarrow> string" where
  "toFixed toString f x0 =
     (let s = (if x0 < 0 then ''-'' else '''');
          x = (if x0 < 0 then - x0 else x0)
      in if 10 ^ 21 \<le> x then s @ toString x
         else
           let n = nat \<lfloor>x * 10 ^ f + 1 / 2\<rfloor>;
               m = decimal n;
               m = (if f \<noteq> 0 \<and> length m \<le> f then replicate (f + 1 - length m) CHR ''0'' @ m else m)
           in if f \<noteq> 0
              then s @ take (length m - f) m @ ''.'' @ drop (length m - f) m
              else s @ m)"

section \<open>Data model\<close>

text \<open>
  Strings are lists of code units. Coordinates are numbers the logic never inspects. A
  directions reply is the parsed body \<open>data.features\<close>: absent, or a list of features
  with the geometry and the summary the conversion reads.
\<close>

record latlng =
  lat :: number
  lng :: number

record route =
  coordinates :: "latlng list"
  route_distance :: string
  route_duration :: string

record feature =
  geometry_coordinates :: "(number \<times> number) list"
  summary_distance :: number
  summary_duration :: number

record place =
  place_lat :: number
  place_lon :: number
  display_name :: string

datatype 'a response = Resolved 'a | Rejected string

text \<open>The state object of \<^verbatim>\<open>useRoutePlanner\<close>; the thirteen \<^verbatim>\<open>useState\<close> cells of the flat component.\<close>

record state =
  origin :: "latlng option"
  destination :: "latlng option"
  originName :: string
  destinationName :: string
  routes :: "route list"
  selectedRouteIndex :: nat
  distance :: string
  duration :: string
  searchTerm :: string
  searchResults :: "place list"
  mode :: string
  isLoadingRoute :: bool
  routeError :: string

definition initialState :: state where
  "initialState =
     \<lparr>origin = None, destination = None, originName = '''', destinationName = '''',
      routes = [], selectedRouteIndex = 0, distance = '''', duration = '''',
      searchTerm = '''', searchResults = [], mode = ''driving-car'',
      isLoadingRoute = False, routeError = ''''\<rparr>"

text \<open>
  What the component reads from its surroundings: the service credential
  (\<^verbatim>\<open>process.env.REACT_APP_ORS_API_KEY || ""\<close>), whether \<^verbatim>\<open>navigator.geolocation\<close> exists, and
  the general number-to-string conversion that \<open>toFixed\<close> falls back to.
\<close>

record env =
  orsKey :: string
  hasGeolocation :: bool
  numberToString :: "number \<Rightarrow> string"

text \<open>
  What a handler does besides updating the state. A directions request is given by its URL,
  the coordinates of its body and its authorization header (the parameters for alternative
  routes in the body are constants).
\<close>

datatype effect =
    PostDirections string "number list list" string
  | GetReverse latlng
  | GetSearch string
  | GetCurrentPosition
  | ConsoleError string
  | Alert string
  | Uncaught string

definition orsUrl :: "string \<Rightarrow> string" where
  "orsUrl m = ''https://api.openrouteservice.org/v2/directions/'' @ m @ ''/geojson''"

section \<open>The hook-based component (MapComponent.js)\<close>

definition routeOfFeature :: "env \<Rightarrow> feature \<Rightarrow> route" where
  "routeOfFeature cfg f =
     \<lparr>coordinates = map (\<lambda>(lng', lat'). \<lparr>lat = lat', lng = lng'\<rparr>) (geometry_coordinates f),
      route_distance = toFixed (numberToString cfg) 2 (js_div (summary_distance f) 1000),
      route_duration = toFixed (numberToString cfg) 2 (js_div (summary_duration f) 60)\<rparr>"

text \<open>\<open>fetchRoute\<close> up to its \<^verbatim>\<open>await\<close>: the two guards, then the loading update and the request.\<close>

definition fetchRoute :: "env \<Rightarrow> state \<Rightarrow> state \<times> effect list" where
  "fetchRoute cfg st =
     (case (origin st, destination st) of
        (Some a, Some b) \<Rightarrow>
          if orsKey cfg = '''' then (st\<lparr>routeError := ''API key is missing.''\<rparr>, [])
          else (st\<lparr>isLoadingRoute := True, routeError := '''', routes := [],
                    distance := '''', duration := ''''\<rparr>,
                [PostDirections (orsUrl (mode st)) [[lng a, lat a], [lng b, lat b]] (orsKey cfg)])
      | _ \<Rightarrow> (st\<lparr>routeError := ''Please set both origin and destination.''\<rparr>, []))"

text \<open>
  The rest of \<open>fetchRoute\<close>, run when the reply arrives, on the state of that moment (every
  update is a merge into the previous state): \<^verbatim>\<open>try\<close> body, \<^verbatim>\<open>catch\<close>, \<^verbatim>\<open>finally\<close>.
\<close>

definition fetchRoute_failed :: "state \<Rightarrow> string \<Rightarrow> state \<times> effect list" where
  "fetchRoute_failed st msg =
     (st\<lparr>routeError := ''Failed to fetch route: '' @ msg\<rparr>, [ConsoleError ''Error fetching route:''])"

definition fetchRoute_reply :: "env \<Rightarrow> state \<Rightarrow> feature list option response \<Rightarrow> state \<times> effect list" where
  "fetchRoute_reply cfg st r =
     (let (st1, es) =
        (case r of
           Rejected msg \<Rightarrow> fetchRoute_failed st msg
         | Resolved None \<Rightarrow> fetchRoute_failed st ''No routes found.''
         | Resolved (Some []) \<Rightarrow> fetchRoute_failed st ''No routes found.''
         | Resolved (Some (f # fs)) \<Rightarrow>
             (let rs = map (routeOfFeature cfg) (f # fs)
              in (st\<lparr>routes := rs, selectedRouteIndex := 0,
                      distance := route_distance (rs ! 0) @ '' km'',
                      duration := route_duration (rs ! 0) @ '' min''\<rparr>, [])))
      in (st1\<lparr>isLoadingRoute := False\<rparr>, es))"

text \<open>The body of the effect that depends on mode, origin and destination.\<close>

definition routeEffect :: "env \<Rightarrow> state \<Rightarrow> state \<times> effect list" where
  "routeEffect cfg st =
     (if origin st \<noteq> None \<and> destination st \<noteq> None \<and> \<not> isLoadingRoute st
      then fetchRoute cfg st else (st, []))"

definition handleSearch :: "state \<Rightarrow> string \<Rightarrow> state \<times> effect list" where
  "handleSearch st term =
     (let st1 = st\<lparr>searchTerm := term\<rparr>
      in if length term < 3 then (st1\<lparr>searchResults := []\<rparr>, [])
         else (st1, [GetSearch term]))"

definition handleSearch_reply :: "state \<Rightarrow> place list response \<Rightarrow> state \<times> effect list" where
  "handleSearch_reply st r =
     (case r of
        Resolved data \<Rightarrow> (st\<lparr>searchResults := data\<rparr>, [])
      | Rejected msg \<Rightarrow> (st, [ConsoleError ''Error fetching address suggestions:'']))"

datatype name_slot = OriginName | DestinationName

definition setName :: "name_slot \<Rightarrow> string \<Rightarrow> state \<Rightarrow> state" where
  "setName slot n st =
     (case slot of OriginName \<Rightarrow> st\<lparr>originName := n\<rparr> | DestinationName \<Rightarrow> st\<lparr>destinationName := n\<rparr>)"

text \<open>\<open>fetchLocationName\<close> after its \<^verbatim>\<open>await\<close>; \<open>data.display_name\<close> may be missing or empty.\<close>

definition fetchLocationName_reply ::
  "name_slot \<Rightarrow> state \<Rightarrow> string option response \<Rightarrow> state \<times> effect list" where
  "fetchLocationName_reply slot st r =
     (case r of
        Resolved (Some n) \<Rightarrow> (setName slot (if n = '''' then ''Unknown Location'' else n) st, [])
      | Resolved None \<Rightarrow> (setName slot ''Unknown Location'' st, [])
      | Rejected msg \<Rightarrow>
          (setName slot ''Unknown Location'' st, [ConsoleError ''Error fetching location name:'']))"

text \<open>The click handler of \<open>LocationMarker\<close>, up to the \<^verbatim>\<open>await\<close>.\<close>

definition mapClick :: "state \<Rightarrow> latlng \<Rightarrow> state \<times> effect list" where
  "mapClick st latlng =
     (if origin st = None then (st\<lparr>origin := Some latlng\<rparr>, [GetReverse latlng])
      else (st\<lparr>destination := Some latlng\<rparr>, [GetReverse latlng]))"

text \<open>\<open>selectLocation\<close> up to the \<^verbatim>\<open>await\<close>, and its last update after the name has arrived.\<close>

definition selectLocation :: "state \<Rightarrow> number \<Rightarrow> number \<Rightarrow> state \<times> effect list" where
  "selectLocation st la lo =
     (let location = \<lparr>lat = la, lng = lo\<rparr>
      in if origin st = None then (st\<lparr>origin := Some location\<rparr>, [GetReverse location])
         else (st\<lparr>destination := Some location\<rparr>, [GetReverse location]))"

definition selectLocation_done :: "state \<Rightarrow> state" where
  "selectLocation_done st = st\<lparr>searchResults := [], searchTerm := ''''\<rparr>"

definition setCurrentLocation :: "env \<Rightarrow> state \<Rightarrow> state \<times> effect list" where
  "setCurrentLocation cfg st =
     (if \<not> hasGeolocation cfg then (st, [Alert ''Geolocation is not supported by your browser.''])
      else (st, [GetCurrentPosition]))"

definition setCurrentLocation_reply :: "state \<Rightarrow> latlng option \<Rightarrow> state \<times> effect list" where
  "setCurrentLocation_reply st r =
     (case r of
        Some location \<Rightarrow> (st\<lparr>origin := Some location\<rparr>, [GetReverse location])
      | None \<Rightarrow> (st, [ConsoleError ''Error fetching current location:'',
                      Alert ''Unable to fetch your location. Please try again or select manually.'']))"

text \<open>
  \<open>handleRouteChange\<close>: the update object is built first, so an index without a route
  raises a TypeError before any update is made.
\<close>

definition handleRouteChange :: "state \<Rightarrow> nat \<Rightarrow> state \<times> effect list" where
  "handleRouteChange st i =
     (if i < length (routes st)
      then (st\<lparr>selectedRouteIndex := i,
                distance := route_distance (routes st ! i) @ '' km'',
                duration := route_duration (routes st ! i) @ '' min''\<rparr>, [])
      else (st, [Uncaught ''TypeError'']))"

definition resetRoute :: "state \<Rightarrow> state" where
  "resetRoute st =
     st\<lparr>origin := None, destination := None, originName := '''', destinationName := '''',
        routes := [], selectedRouteIndex := 0, distance := '''', duration := '''',
        routeError := '''', searchTerm := '''', searchResults := []\<rparr>"

section \<open>Events\<close>

text \<open>
  The component is driven by one event at a time: a user action, or the arrival of a reply
  to a request made earlier. Each event is handled on the state that is current when it
  arrives. A reply to a reverse-geocoding request carries the name it is for and whether
  the request came from \<open>selectLocation\<close> (which clears the search afterwards).
\<close>

datatype event =
    MapClick latlng
  | SearchInput string
  | SearchResultClick number number
  | MyLocationClick
  | ModeSelect string
  | RouteButtonClick nat
  | GetRouteClick
  | ResetClick
  | DirectionsReply "feature list option response"
  | ReverseReply name_slot bool "string option response"
  | SearchReply "place list response"
  | PositionReply "latlng option"

definition andThen ::
  "state \<times> effect list \<Rightarrow> (state \<Rightarrow> state \<times> effect list) \<Rightarrow> state \<times> effect list" where
  "andThen r k = (let (st1, e1) = r; (st2, e2) = k st1 in (st2, e1 @ e2))"

text \<open>
  One event of the hook-based component. The effect body runs after the events that change
  mode, origin or destination (a point that is set is a new object every time).
\<close>

definition step :: "env \<Rightarrow> state \<Rightarrow> event \<Rightarrow> state \<times> effect list" where
  "step cfg st ev =
     (case ev of
        MapClick p \<Rightarrow> andThen (mapClick st p) (routeEffect cfg)
      | SearchInput t \<Rightarrow> handleSearch st t
      | SearchResultClick la lo \<Rightarrow> andThen (selectLocation st la lo) (routeEffect cfg)
      | MyLocationClick \<Rightarrow> setCurrentLocation cfg st
      | ModeSelect m \<Rightarrow> if m = mode st then (st, []) else routeEffect cfg (st\<lparr>mode := m\<rparr>)
      | RouteButtonClick i \<Rightarrow> handleRouteChange st i
      | GetRouteClick \<Rightarrow> fetchRoute cfg st
      | ResetClick \<Rightarrow> andThen (resetRoute st, []) (routeEffect cfg)
      | DirectionsReply r \<Rightarrow> fetchRoute_reply cfg st r
      | ReverseReply slot fromSearch r \<Rightarrow>
          (let (st1, es) = fetchLocationName_reply slot st r
           in (if fromSearch then selectLocation_done st1 else st1, es))
      | SearchReply r \<Rightarrow> handleSearch_reply st r
      | PositionReply r \<Rightarrow> andThen (setCurrentLocation_reply st r) (routeEffect cfg))"

text \<open>
  A session together with the number of directions requests that have been sent and not
  yet answered.
\<close>

record sys =
  session :: state
  inflight :: nat

definition initialSys :: sys where
  "initialSys = \<lparr>session = initialState, inflight = 0\<rparr>"

fun isPost :: "effect \<Rightarrow> bool" where
  "isPost (PostDirections u b k) = True"
| "isPost e = False"

fun isDirectionsReply :: "event \<Rightarrow> bool" where
  "isDirectionsReply (DirectionsReply r) = True"
| "isDirectionsReply ev = False"

text \<open>
  What the rendered page and the network allow: a route button exists for each route of
  the list, the Get Route button is disabled without both points or while loading, a
  search result can be clicked when it is listed, and a directions reply answers a request
  in flight.
\<close>

fun enabled :: "sys \<Rightarrow> event \<Rightarrow> bool" where
  "enabled s (RouteButtonClick i) = (i < length (routes (session s)))"
| "enabled s GetRouteClick =
     (origin (session s) \<noteq> None \<and> destination (session s) \<noteq> None \<and> \<not> isLoadingRoute (session s))"
| "enabled s (SearchResultClick la lo) =
     list_ex (\<lambda>p. place_lat p = la \<and> place_lon p = lo) (searchResults (session s))"
| "enabled s (DirectionsReply r) = (0 < inflight s)"
| "enabled s ev = True"

type_synonym component = "env \<Rightarrow> state \<Rightarrow> event \<Rightarrow> state \<times> effect list"

definition sys_step :: "component \<Rightarrow> env \<Rightarrow> sys \<Rightarrow> event \<Rightarrow> sys \<times> effect list" where
  "sys_step c cfg s ev =
     (let (st, es) = c cfg (session s) ev
      in (\<lparr>session = st,
           inflight = inflight s + length (filter isPost es) - (if isDirectionsReply ev then 1 else 0)\<rparr>,
          es))"

text \<open>A run handles the events in order and collects the effects; it stops at an event that is not enabled.\<close>

fun run :: "component \<Rightarrow> env \<Rightarrow> sys \<Rightarrow> event list \<Rightarrow> (sys \<times> effect list) option" where
  "run c cfg s [] = Some (s, [])"
| "run c cfg s (ev # evs) =
     (if enabled s ev
      then (case sys_step c cfg s ev of
              (s1, e1) \<Rightarrow> (case run c cfg s1 evs of None \<Rightarrow> None | Some (s2, e2) \<Rightarrow> Some (s2, e1 @ e2)))
      else None)"

section \<open>The flat component (the second source file)\<close>

text \<open>The state is held in thirteen cells, each with its setter.\<close>

definition setOrigin :: "latlng option \<Rightarrow> state \<Rightarrow> state" where
  "setOrigin v st = st\<lparr>origin := v\<rparr>"

definition setDestination :: "latlng option \<Rightarrow> state \<Rightarrow> state" where
  "setDestination v st = st\<lparr>destination := v\<rparr>"

definition setOriginName :: "string \<Rightarrow> state \<Rightarrow> state" where
  "setOriginName v st = st\<lparr>originName := v\<rparr>"

definition setDestinationName :: "string \<Rightarrow> state \<Rightarrow> state" where
  "setDestinationName v st = st\<lparr>destinationName := v\<rparr>"

definition setRoutes :: "route list \<Rightarrow> state \<Rightarrow> state" where
  "setRoutes v st = st\<lparr>routes := v\<rparr>"

definition setSelectedRouteIndex :: "nat \<Rightarrow> state \<Rightarrow> state" where
  "setSelectedRouteIndex v st = st\<lparr>selectedRouteIndex := v\<rparr>"

definition setDistance :: "string \<Rightarrow> state \<Rightarrow> state" where
  "setDistance v st = st\<lparr>distance := v\<rparr>"

definition setDuration :: "string \<Rightarrow> state \<Rightarrow> state" where
  "setDuration v st = st\<lparr>duration := v\<rparr>"

definition setSearchTerm :: "string \<Rightarrow> state \<Rightarrow> state" where
  "setSearchTerm v st = st\<lparr>searchTerm := v\<rparr>"

definition setSearchResults :: "place list \<Rightarrow> state \<Rightarrow> state" where
  "setSearchResults v st = st\<lparr>searchResults := v\<rparr>"

definition setMode :: "string \<Rightarrow> state \<Rightarrow> state" where
  "setMode v st = st\<lparr>mode := v\<rparr>"

definition setIsLoadingRoute :: "bool \<Rightarrow> state \<Rightarrow> state" where
  "setIsLoadingRoute v st = st\<lparr>isLoadingRoute := v\<rparr>"

definition setRouteError :: "string \<Rightarrow> state \<Rightarrow> state" where
  "setRouteError v st = st\<lparr>routeError := v\<rparr>"

definition fetchedRoute :: "env \<Rightarrow> feature \<Rightarrow> route" where
  "fetchedRoute cfg f =
     \<lparr>coordinates = map (\<lambda>(lng', lat'). \<lparr>lat = lat', lng = lng'\<rparr>) (geometry_coordinates f),
      route_distance = toFixed (numberToString cfg) 2 (js_div (summary_distance f) 1000),
      route_duration = toFixed (numberToString cfg) 2 (js_div (summary_duration f) 60)\<rparr>"

definition fetchRoute_flat :: "env \<Rightarrow> state \<Rightarrow> state \<times> effect list" where
  "fetchRoute_flat cfg st =
     (case origin st of
        None \<Rightarrow> (setRouteError ''Please set both origin and destination.'' st, [])
      | Some a \<Rightarrow>
         (case destination st of
            None \<Rightarrow> (setRouteError ''Please set both origin and destination.'' st, [])
          | Some b \<Rightarrow>
              if orsKey cfg = ''''
              then (setRouteError ''API key is missing. Please configure the OpenRouteService API key.'' st, [])
              else ((setDuration '''' \<circ> setDistance '''' \<circ> setRoutes [] \<circ> setRouteError '''' \<circ>
                     setIsLoadingRoute True) st,
                    [PostDirections
                       (''https://api.openrouteservice.org/v2/directions/'' @ mode st @ ''/geojson'')
                       [[lng a, lat a], [lng b, lat b]] (orsKey cfg)])))"

definition fetchRoute_failed_flat :: "state \<Rightarrow> string \<Rightarrow> state \<times> effect list" where
  "fetchRoute_failed_flat st msg =
     (setRouteError (''Failed to fetch route: '' @ msg) st, [ConsoleError ''Error fetching route:''])"

definition fetchRoute_reply_flat ::
  "env \<Rightarrow> state \<Rightarrow> feature list option response \<Rightarrow> state \<times> effect list" where
  "fetchRoute_reply_flat cfg st r =
     (let (st1, es) =
        (case r of
           Rejected msg \<Rightarrow> fetchRoute_failed_flat st msg
         | Resolved data \<Rightarrow>
             if data = None \<or> length (the data) = 0
             then fetchRoute_failed_flat st ''No routes found in the API response.''
             else
               (let fetchedRoutes = map (fetchedRoute cfg) (the data)
                in ((setDuration (route_duration (fetchedRoutes ! 0) @ '' min'') \<circ>
                     setDistance (route_distance (fetchedRoutes ! 0) @ '' km'') \<circ>
                     setSelectedRouteIndex 0 \<circ> setRoutes fetchedRoutes) st, [])))
      in (setIsLoadingRoute False st1, es))"

definition routeEffect_flat :: "env \<Rightarrow> state \<Rightarrow> state \<times> effect list" where
  "routeEffect_flat cfg st =
     (if origin st \<noteq> None \<and> destination st \<noteq> None \<and> \<not> isLoadingRoute st
      then fetchRoute_flat cfg st else (st, []))"

definition handleSearch_flat :: "state \<Rightarrow> string \<Rightarrow> state \<times> effect list" where
  "handleSearch_flat st v =
     (if length v < 3 then (setSearchResults [] (setSearchTerm v st), [])
      else (setSearchTerm v st, [GetSearch v]))"

definition handleSearch_reply_flat :: "state \<Rightarrow> place list response \<Rightarrow> state \<times> effect list" where
  "handleSearch_reply_flat st r =
     (case r of
        Resolved data \<Rightarrow> (setSearchResults data st, [])
      | Rejected msg \<Rightarrow> (st, [ConsoleError ''Error fetching address suggestions:'']))"

definition setLocationName :: "name_slot \<Rightarrow> string \<Rightarrow> state \<Rightarrow> state" where
  "setLocationName slot = (case slot of OriginName \<Rightarrow> setOriginName | DestinationName \<Rightarrow> setDestinationName)"

definition fetchLocationName_reply_flat ::
  "name_slot \<Rightarrow> state \<Rightarrow> string option response \<Rightarrow> state \<times> effect list" where
  "fetchLocationName_reply_flat slot st r =
     (case r of
        Resolved d \<Rightarrow>
          (setLocationName slot (if d = None \<or> the d = '''' then ''Unknown Location'' else the d) st, [])
      | Rejected msg \<Rightarrow>
          (setLocationName slot ''Unknown Location'' st, [ConsoleError ''Error fetching location name:'']))"

definition mapClick_flat :: "state \<Rightarrow> latlng \<Rightarrow> state \<times> effect list" where
  "mapClick_flat st p =
     (if origin st = None then (setOrigin (Some p) st, [GetReverse p])
      else (setDestination (Some p) st, [GetReverse p]))"

definition selectLocation_flat :: "state \<Rightarrow> number \<Rightarrow> number \<Rightarrow> state \<times> effect list" where
  "selectLocation_flat st la lo =
     (if origin st = None
      then (setOrigin (Some \<lparr>lat = la, lng = lo\<rparr>) st, [GetReverse \<lparr>lat = la, lng = lo\<rparr>])
      else (setDestination (Some \<lparr>lat = la, lng = lo\<rparr>) st, [GetReverse \<lparr>lat = la, lng = lo\<rparr>]))"

definition selectLocation_done_flat :: "state \<Rightarrow> state" where
  "selectLocation_done_flat = setSearchTerm '''' \<circ> setSearchResults []"

definition setCurrentLocationAsOrigin :: "env \<Rightarrow> state \<Rightarrow> state \<times> effect list" where
  "setCurrentLocationAsOrigin cfg st =
     (if hasGeolocation cfg then (st, [GetCurrentPosition])
      else (st, [Alert ''Geolocation is not supported by your browser.'']))"

definition setCurrentLocationAsOrigin_reply :: "state \<Rightarrow> latlng option \<Rightarrow> state \<times> effect list" where
  "setCurrentLocationAsOrigin_reply st r =
     (case r of
        Some location \<Rightarrow> (setOrigin (Some location) st, [GetReverse location])
      | None \<Rightarrow> (st, [ConsoleError ''Error fetching current location:'',
                      Alert ''Unable to fetch your location. Please try again or select manually.'']))"

text \<open>
  \<open>handleRouteChange\<close> of the flat component sets the index first; with an index that has
  no route, the TypeError of the next statement comes after that update.
\<close>

definition handleRouteChange_flat :: "state \<Rightarrow> nat \<Rightarrow> state \<times> effect list" where
  "handleRouteChange_flat st i =
     (let st1 = setSelectedRouteIndex i st
      in if i < length (routes st)
         then ((setDuration (route_duration (routes st ! i) @ '' min'') \<circ>
                setDistance (route_distance (routes st ! i) @ '' km'')) st1, [])
         else (st1, [Uncaught ''TypeError'']))"

definition resetRoute_flat :: "state \<Rightarrow> state" where
  "resetRoute_flat =
     setSearchResults [] \<circ> setSearchTerm '''' \<circ> setRouteError '''' \<circ> setDuration '''' \<circ>
     setDistance '''' \<circ> setSelectedRouteIndex 0 \<circ> setRoutes [] \<circ> setDestinationName '''' \<circ>
     setOriginName '''' \<circ> setDestination None \<circ> setOrigin None"

definition step_flat :: "env \<Rightarrow> state \<Rightarrow> event \<Rightarrow> state \<times> effect list" where
  "step_flat cfg st ev =
     (case ev of
        MapClick p \<Rightarrow> andThen (mapClick_flat st p) (routeEffect_flat cfg)
      | SearchInput t \<Rightarrow> handleSearch_flat st t
      | SearchResultClick la lo \<Rightarrow> andThen (selectLocation_flat st la lo) (routeEffect_flat cfg)
      | MyLocationClick \<Rightarrow> setCurrentLocationAsOrigin cfg st
      | ModeSelect m \<Rightarrow> if m = mode st then (st, []) else routeEffect_flat cfg (setMode m st)
      | RouteButtonClick i \<Rightarrow> handleRouteChange_flat st i
      | GetRouteClick \<Rightarrow> fetchRoute_flat cfg st
      | ResetClick \<Rightarrow> andThen (resetRoute_flat st, []) (routeEffect_flat cfg)
      | DirectionsReply r \<Rightarrow> fetchRoute_reply_flat cfg st r
      | ReverseReply slot fromSearch r \<Rightarrow>
          (let (st1, es) = fetchLocationName_reply_flat slot st r
           in (if fromSearch then selectLocation_done_flat st1 else st1, es))
      | SearchReply r \<Rightarrow> handleSearch_reply_flat st r
      | PositionReply r \<Rightarrow> andThen (setCurrentLocationAsOrigin_reply st r) (routeEffect_flat cfg))"

section \<open>Concrete inputs used by the examples\<close>

definition cfg0 :: env where
  "cfg0 = \<lparr>orsKey = ''key'', hasGeolocation = True, numberToString = (\<lambda>x. ''big'')\<rparr>"

definition pointA :: latlng where
  "pointA = \<lparr>lat = 5150 / 100, lng = - 10 / 100\<rparr>"

definition pointB :: latlng where
  "pointB = \<lparr>lat = 5151 / 100, lng = - 8 / 100\<rparr>"

definition feature1 :: feature where
  "feature1 = \<lparr>geometry_coordinates = [(- 10 / 100, 5150 / 100), (- 8 / 100, 5151 / 100)],
               summary_distance = 12345, summary_duration = 987\<rparr>"

definition feature2 :: feature where
  "feature2 = \<lparr>geometry_coordinates = [(- 10 / 100, 5150 / 100), (- 8 / 100, 5151 / 100)],
               summary_distance = 4800, summary_duration = 650\<rparr>"

definition place1 :: place where
  "place1 = \<lparr>place_lat = 5150 / 100, place_lon = - 10 / 100, display_name = ''London''\<rparr>"

text \<open>Both points set, nothing fetched yet.\<close>

definition readyState :: state where
  "readyState = initialState\<lparr>origin := Some pointA, destination := Some pointB\<rparr>"

text \<open>Two routes on display, the second one selected, walking mode.\<close>

definition shownState :: state where
  "shownState =
     readyState\<lparr>routes := [routeOfFeature cfg0 feature1, routeOfFeature cfg0 feature2],
                selectedRouteIndex := 1, distance := ''4.80 km'', duration := ''10.83 min'',
                mode := ''foot-walking'', searchTerm := ''lon'', searchResults := [place1]\<rparr>"

text \<open>No credential configured.\<close>

definition cfgNoKey :: env where
  "cfgNoKey = \<lparr>orsKey = '''', hasGeolocation = True, numberToString = (\<lambda>x. ''big'')\<rparr>"

text \<open>The effects of clicking both points with a credential configured.\<close>

definition loadingEffects :: "effect list" where
  "loadingEffects =
     [GetReverse pointA, GetReverse pointB,
      PostDirections ''https://api.openrouteservice.org/v2/directions/driving-car/geojson''
        [[- 10 / 100, 5150 / 100], [- 8 / 100, 5151 / 100]] ''key'']"

text \<open>Both points are clicked: the fetch has started and its request is in flight.\<close>

definition loadingEvents :: "event list" where
  "loadingEvents = [MapClick pointA, MapClick pointB]"

definition loadingSys :: sys where
  "loadingSys = \<lparr>session = readyState\<lparr>isLoadingRoute := True\<rparr>, inflight = 1\<rparr>"

text \<open>Both points are clicked (the fetch starts), then the mode is changed while the request is out.\<close>

definition staleEvents :: "event list" where
  "staleEvents = [MapClick pointA, MapClick pointB, ModeSelect ''foot-walking'']"

definition staleSys :: sys where
  "staleSys = \<lparr>session = readyState\<lparr>mode := ''foot-walking'', isLoadingRoute := True\<rparr>, inflight = 1\<rparr>"

text \<open>Both points are clicked and the service answers with no feature.\<close>

definition emptyReplyEvents :: "event list" where
  "emptyReplyEvents = [MapClick pointA, MapClick pointB, DirectionsReply (Resolved (Some []))]"

text \<open>Both points are clicked, two routes arrive, the second one is chosen.\<close>

definition chooseEvents :: "event list" where
  "chooseEvents =
     [MapClick pointA, MapClick pointB, DirectionsReply (Resolved (Some [feature1, feature2])),
      RouteButtonClick 1]"

definition chosenSys :: sys where
  "chosenSys =
     \<lparr>session = readyState\<lparr>routes := [routeOfFeature cfg0 feature1, routeOfFeature cfg0 feature2],
                           selectedRouteIndex := 1, distance := ''4.80 km'',
                           duration := ''10.83 min''\<rparr>,
      inflight = 0\<rparr>"

section \<open>Notions of the specification\<close>

text \<open>
  Rounding to two decimal places: the number of hundredths nearest to the magnitude (half
  a hundredth goes up), written with its sign, the integer part, a point and two digits.
\<close>

definition hundredths :: "number \<Rightarrow> nat" where
  "hundredths x = nat \<lfloor>\<bar>x\<bar> * 100 + 1 / 2\<rfloor>"

definition two_decimals :: "number \<Rightarrow> string" where
  "two_decimals x =
     (if x < 0 then ''-'' else '''') @ decimal (hundredths x div 100) @ ''.'' @
     [digit_char (hundredths x div 10 mod 10), digit_char (hundredths x mod 10)]"

text \<open>
  The state of the route request: the number of requests in flight is one while loading
  and zero otherwise, no route is listed while loading, and the selected index is a
  position of a non-empty route list.
\<close>

definition route_inv :: "sys \<Rightarrow> bool" where
  "route_inv s =
     (inflight s = (if isLoadingRoute (session s) then 1 else 0)
      \<and> (isLoadingRoute (session s) \<longrightarrow> routes (session s) = [])
      \<and> (routes (session s) \<noteq> [] \<longrightarrow> selectedRouteIndex (session s) < length (routes (session s))))"

text \<open>
  Agreement of the hook-based component (left) with the flat one (right): every field is
  equal, except that the error message may be one of the two pairs of wordings in which the
  sources differ. \<open>agree_up_to_credential\<close> allows the first pair only.
\<close>

definition same_fields :: "state \<Rightarrow> state \<Rightarrow> bool" where
  "same_fields a b =
     (origin a = origin b \<and> destination a = destination b \<and> originName a = originName b
      \<and> destinationName a = destinationName b \<and> routes a = routes b
      \<and> selectedRouteIndex a = selectedRouteIndex b \<and> distance a = distance b
      \<and> duration a = duration b \<and> searchTerm a = searchTerm b
      \<and> searchResults a = searchResults b \<and> mode a = mode b
      \<and> isLoadingRoute a = isLoadingRoute b)"

definition credential_wording :: "string \<Rightarrow> string \<Rightarrow> bool" where
  "credential_wording a b =
     (a = ''API key is missing.'' \<and>
      b = ''API key is missing. Please configure the OpenRouteService API key.'')"

definition empty_result_wording :: "string \<Rightarrow> string \<Rightarrow> bool" where
  "empty_result_wording a b =
     (a = ''Failed to fetch route: No routes found.'' \<and>
      b = ''Failed to fetch route: No routes found in the API response.'')"

definition agree_up_to_credential :: "state \<Rightarrow> state \<Rightarrow> bool" where
  "agree_up_to_credential a b =
     (same_fields a b \<and>
      (routeError a = routeError b \<or> credential_wording (routeError a) (routeError b)))"

definition agree :: "state \<Rightarrow> state \<Rightarrow> bool" where
  "agree a b =
     (same_fields a b \<and>
      (routeError a = routeError b \<or> credential_wording (routeError a) (routeError b)
       \<or> empty_result_wording (routeError a) (routeError b)))"

text \<open>Two runs agree when both stop, or both finish with the same effects, the same number of requests in flight and agreeing sessions.\<close>

definition runs_agree :: "(sys \<times> effect list) option \<Rightarrow> (sys \<times> effect list) option \<Rightarrow> bool" where
  "runs_agree x y =
     (case (x, y) of
        (None, None) \<Rightarrow> True
      | (Some (s, es), Some (t, es')) \<Rightarrow> es = es' \<and> inflight s = inflight t \<and> agree (session s) (session t)
      | _ \<Rightarrow> False)"

section \<open>Properties of the single handlers\<close>

lemmas setters =
  setOrigin_def setDestination_def setOriginName_def setDestinationName_def setRoutes_def
  setSelectedRouteIndex_def setDistance_def setDuration_def setSearchTerm_def
  setSearchResults_def setMode_def setIsLoadingRoute_def setRouteError_def

lemma fetchRoute_post:
  assumes "PostDirections u b k \<in> set (snd (fetchRoute cfg st))"
  shows "origin st \<noteq> None \<and> destination st \<noteq> None \<and> orsKey cfg \<noteq> ''''"
  using assms by (auto simp: fetchRoute_def split: option.splits if_splits)

lemma fetchRoute_flat_post:
  assumes "PostDirections u b k \<in> set (snd (fetchRoute_flat cfg st))"
  shows "origin st \<noteq> None \<and> destination st \<noteq> None \<and> orsKey cfg \<noteq> ''''"
  using assms by (auto simp: fetchRoute_flat_def split: option.splits if_splits)

lemma andThen_simps:
  "fst (andThen r k) = fst (k (fst r))" "snd (andThen r k) = snd r @ snd (k (fst r))"
  by (simp_all add: andThen_def split: prod.splits)

text \<open>Whatever the event, a directions request among its effects means that both points are set.\<close>

lemma step_post:
  assumes "PostDirections u b k \<in> set (snd (step cfg st ev))"
  shows "origin (fst (step cfg st ev)) \<noteq> None \<and> destination (fst (step cfg st ev)) \<noteq> None"
proof -
  have fr: "\<And>s. PostDirections u b k \<in> set (snd (fetchRoute cfg s)) \<Longrightarrow>
      origin (fst (fetchRoute cfg s)) \<noteq> None \<and> destination (fst (fetchRoute cfg s)) \<noteq> None"
    by (auto simp: fetchRoute_def split: option.splits if_splits)
  have re: "\<And>s. PostDirections u b k \<in> set (snd (routeEffect cfg s)) \<Longrightarrow>
      origin (fst (routeEffect cfg s)) \<noteq> None \<and> destination (fst (routeEffect cfg s)) \<noteq> None"
    using fr by (auto simp: routeEffect_def split: if_splits)
  show ?thesis
  proof (cases ev)
    case (MapClick p)
    with assms re [of "fst (mapClick st p)"] show ?thesis
      by (auto simp: step_def andThen_simps mapClick_def split: if_splits)
  next
    case (SearchResultClick la lo)
    with assms re [of "fst (selectLocation st la lo)"] show ?thesis
      by (auto simp: step_def andThen_simps selectLocation_def Let_def split: if_splits)
  next
    case (ModeSelect m)
    with assms re [of "st\<lparr>mode := m\<rparr>"] show ?thesis
      by (auto simp: step_def split: if_splits)
  next
    case GetRouteClick
    with assms fr [of st] show ?thesis by (simp add: step_def)
  next
    case ResetClick
    with assms re [of "resetRoute st"] show ?thesis
      by (auto simp: step_def andThen_simps)
  next
    case (PositionReply r)
    with assms re [of "fst (setCurrentLocation_reply st r)"] show ?thesis
      by (auto simp: step_def andThen_simps setCurrentLocation_reply_def split: option.splits)
  next
    case (DirectionsReply r)
    with assms show ?thesis
      by (auto simp: step_def fetchRoute_reply_def fetchRoute_failed_def Let_def
          split: response.splits option.splits list.splits)
  qed (use assms in \<open>auto simp: step_def handleSearch_def Let_def setCurrentLocation_def
        handleRouteChange_def fetchLocationName_reply_def handleSearch_reply_def
        split: if_splits response.splits option.splits\<close>)
qed

lemma step_flat_post:
  assumes "PostDirections u b k \<in> set (snd (step_flat cfg st ev))"
  shows "origin (fst (step_flat cfg st ev)) \<noteq> None \<and> destination (fst (step_flat cfg st ev)) \<noteq> None"
proof -
  have fr: "\<And>s. PostDirections u b k \<in> set (snd (fetchRoute_flat cfg s)) \<Longrightarrow>
      origin (fst (fetchRoute_flat cfg s)) \<noteq> None \<and> destination (fst (fetchRoute_flat cfg s)) \<noteq> None"
    by (auto simp: fetchRoute_flat_def setters split: option.splits if_splits)
  have re: "\<And>s. PostDirections u b k \<in> set (snd (routeEffect_flat cfg s)) \<Longrightarrow>
      origin (fst (routeEffect_flat cfg s)) \<noteq> None \<and> destination (fst (routeEffect_flat cfg s)) \<noteq> None"
    using fr by (auto simp: routeEffect_flat_def split: if_splits)
  show ?thesis
  proof (cases ev)
    case (MapClick p)
    with assms re [of "fst (mapClick_flat st p)"] show ?thesis
      by (auto simp: step_flat_def andThen_simps mapClick_flat_def setters split: if_splits)
  next
    case (SearchResultClick la lo)
    with assms re [of "fst (selectLocation_flat st la lo)"] show ?thesis
      by (auto simp: step_flat_def andThen_simps selectLocation_flat_def setters split: if_splits)
  next
    case (ModeSelect m)
    with assms re [of "setMode m st"] show ?thesis
      by (auto simp: step_flat_def split: if_splits)
  next
    case GetRouteClick
    with assms fr [of st] show ?thesis by (simp add: step_flat_def)
  next
    case ResetClick
    with assms re [of "resetRoute_flat st"] show ?thesis
      by (auto simp: step_flat_def andThen_simps)
  next
    case (PositionReply r)
    with assms re [of "fst (setCurrentLocationAsOrigin_reply st r)"] show ?thesis
      by (auto simp: step_flat_def andThen_simps setCurrentLocationAsOrigin_reply_def setters
          split: option.splits)
  next
    case (DirectionsReply r)
    with assms show ?thesis
      by (auto simp: step_flat_def fetchRoute_reply_flat_def fetchRoute_failed_flat_def Let_def setters
          split: response.splits option.splits if_splits)
  qed (use assms in \<open>auto simp: step_flat_def handleSearch_flat_def Let_def
        setCurrentLocationAsOrigin_def handleRouteChange_flat_def fetchLocationName_reply_flat_def
        handleSearch_reply_flat_def setters
        split: if_splits response.splits option.splits\<close>)
qed

text \<open>
  C2. With origin or destination absent, the route fetch sends nothing and changes the
  state in the error message only, which becomes the rejection message; and a fetch that
  does send a directions request was called with both points present. More generally, an
  event of the page or a reply that leads to a directions request leaves both points
  present. This holds for both components.
\<close>

theorem fetchRoute_requires_both_points:
  "(origin st = None \<or> destination st = None \<longrightarrow>
      fetchRoute cfg st = (st\<lparr>routeError := ''Please set both origin and destination.''\<rparr>, []) \<and>
      fetchRoute_flat cfg st = (st\<lparr>routeError := ''Please set both origin and destination.''\<rparr>, []))
   \<and> (PostDirections u b k \<in> set (snd (fetchRoute cfg st)) \<or>
       PostDirections u b k \<in> set (snd (fetchRoute_flat cfg st)) \<longrightarrow>
         origin st \<noteq> None \<and> destination st \<noteq> None)
   \<and> (PostDirections u b k \<in> set (snd (step cfg st ev)) \<longrightarrow>
         origin (fst (step cfg st ev)) \<noteq> None \<and> destination (fst (step cfg st ev)) \<noteq> None)
   \<and> (PostDirections u b k \<in> set (snd (step_flat cfg st ev)) \<longrightarrow>
         origin (fst (step_flat cfg st ev)) \<noteq> None \<and> destination (fst (step_flat cfg st ev)) \<noteq> None)"
proof (intro conjI impI)
  assume a: "origin st = None \<or> destination st = None"
  then show "fetchRoute cfg st = (st\<lparr>routeError := ''Please set both origin and destination.''\<rparr>, [])"
    by (auto simp: fetchRoute_def split: option.splits)
  from a show "fetchRoute_flat cfg st = (st\<lparr>routeError := ''Please set both origin and destination.''\<rparr>, [])"
    by (auto simp: fetchRoute_flat_def setters split: option.splits)
next
  assume "PostDirections u b k \<in> set (snd (fetchRoute cfg st)) \<or>
          PostDirections u b k \<in> set (snd (fetchRoute_flat cfg st))"
  then show "origin st \<noteq> None" "destination st \<noteq> None"
    using fetchRoute_post fetchRoute_flat_post by blast+
next
  assume "PostDirections u b k \<in> set (snd (step cfg st ev))"
  then show "origin (fst (step cfg st ev)) \<noteq> None" "destination (fst (step cfg st ev)) \<noteq> None"
    using step_post by blast+
next
  assume "PostDirections u b k \<in> set (snd (step_flat cfg st ev))"
  then show "origin (fst (step_flat cfg st ev)) \<noteq> None" "destination (fst (step_flat cfg st ev)) \<noteq> None"
    using step_flat_post by blast+
qed

theorem fetchRoute_requires_both_points_witness:
  "fetchRoute cfg0 (initialState\<lparr>origin := Some pointA\<rparr>) =
     (initialState\<lparr>origin := Some pointA, routeError := ''Please set both origin and destination.''\<rparr>, [])
   \<and> fetchRoute_flat cfg0 (initialState\<lparr>origin := Some pointA\<rparr>) =
     (initialState\<lparr>origin := Some pointA, routeError := ''Please set both origin and destination.''\<rparr>, [])
   \<and> PostDirections ''https://api.openrouteservice.org/v2/directions/driving-car/geojson''
        [[- 10 / 100, 5150 / 100], [- 8 / 100, 5151 / 100]] ''key'' \<in> set (snd (fetchRoute cfg0 readyState))
   \<and> origin readyState \<noteq> None \<and> destination readyState \<noteq> None
   \<and> PostDirections ''https://api.openrouteservice.org/v2/directions/driving-car/geojson''
        [[- 10 / 100, 5150 / 100], [- 8 / 100, 5151 / 100]] ''key''
         \<in> set (snd (step cfg0 (initialState\<lparr>origin := Some pointA\<rparr>) (MapClick pointB)))
   \<and> PostDirections ''https://api.openrouteservice.org/v2/directions/driving-car/geojson''
        [[- 10 / 100, 5150 / 100], [- 8 / 100, 5151 / 100]] ''key''
         \<in> set (snd (step_flat cfg0 (initialState\<lparr>origin := Some pointA\<rparr>) (MapClick pointB)))
   \<and> destination (fst (step cfg0 (initialState\<lparr>origin := Some pointA\<rparr>) (MapClick pointB))) \<noteq> None
   \<and> destination (fst (step_flat cfg0 (initialState\<lparr>origin := Some pointA\<rparr>) (MapClick pointB))) \<noteq> None"
proof -
  have q: "PostDirections ''https://api.openrouteservice.org/v2/directions/driving-car/geojson''
        [[- 10 / 100, 5150 / 100], [- 8 / 100, 5151 / 100]] ''key''
         \<in> set (snd (step cfg0 (initialState\<lparr>origin := Some pointA\<rparr>) (MapClick pointB)))"
    by code_simp
  have q': "PostDirections ''https://api.openrouteservice.org/v2/directions/driving-car/geojson''
        [[- 10 / 100, 5150 / 100], [- 8 / 100, 5151 / 100]] ''key''
         \<in> set (snd (step_flat cfg0 (initialState\<lparr>origin := Some pointA\<rparr>) (MapClick pointB)))"
    by code_simp
  have p: "PostDirections ''https://api.openrouteservice.org/v2/directions/driving-car/geojson''
        [[- 10 / 100, 5150 / 100], [- 8 / 100, 5151 / 100]] ''key'' \<in> set (snd (fetchRoute cfg0 readyState))"
    by (simp add: fetchRoute_def readyState_def initialState_def cfg0_def pointA_def pointB_def orsUrl_def)
  have d: "destination (initialState\<lparr>origin := Some pointA\<rparr>) = None"
    by (simp add: initialState_def)
  show ?thesis
    using fetchRoute_requires_both_points [of "initialState\<lparr>origin := Some pointA\<rparr>" cfg0]
      fetchRoute_requires_both_points [of readyState cfg0
        "''https://api.openrouteservice.org/v2/directions/driving-car/geojson''"
        "[[- 10 / 100, 5150 / 100], [- 8 / 100, 5151 / 100]]" "''key''" ]
      fetchRoute_requires_both_points [of "initialState\<lparr>origin := Some pointA\<rparr>" cfg0
        "''https://api.openrouteservice.org/v2/directions/driving-car/geojson''"
        "[[- 10 / 100, 5150 / 100], [- 8 / 100, 5151 / 100]]" "''key''" "MapClick pointB"] p d q q'
    by simp
qed

text \<open>
  C4 (as the code has it). Reset gives eleven fields their initial values and leaves the
  travel mode and the loading flag as they are: the result is the initial state with
  the mode and the loading flag of the state before. Both components agree.
\<close>

theorem resetRoute_keeps_mode_and_loading:
  "resetRoute st = initialState\<lparr>mode := mode st, isLoadingRoute := isLoadingRoute st\<rparr>
   \<and> resetRoute_flat st = initialState\<lparr>mode := mode st, isLoadingRoute := isLoadingRoute st\<rparr>"
  by (simp add: resetRoute_def resetRoute_flat_def initialState_def setters)

theorem resetRoute_not_initial_counterexample:
  "run step cfg0 initialSys [ModeSelect ''foot-walking'', ResetClick] =
     Some (\<lparr>session = initialState\<lparr>mode := ''foot-walking''\<rparr>, inflight = 0\<rparr>, [])
   \<and> run step_flat cfg0 initialSys [ModeSelect ''foot-walking'', ResetClick] =
     Some (\<lparr>session = initialState\<lparr>mode := ''foot-walking''\<rparr>, inflight = 0\<rparr>, [])
   \<and> resetRoute (initialState\<lparr>mode := ''foot-walking''\<rparr>) \<noteq> initialState
   \<and> resetRoute_flat (initialState\<lparr>mode := ''foot-walking''\<rparr>) \<noteq> initialState
   \<and> mode (resetRoute (initialState\<lparr>mode := ''foot-walking''\<rparr>)) = ''foot-walking''
   \<and> mode initialState = ''driving-car''"
proof -
  have r: "run step cfg0 initialSys [ModeSelect ''foot-walking'', ResetClick] =
     Some (\<lparr>session = initialState\<lparr>mode := ''foot-walking''\<rparr>, inflight = 0\<rparr>, [])"
    "run step_flat cfg0 initialSys [ModeSelect ''foot-walking'', ResetClick] =
     Some (\<lparr>session = initialState\<lparr>mode := ''foot-walking''\<rparr>, inflight = 0\<rparr>, [])"
    by code_simp+
  then show ?thesis
    by (simp add: resetRoute_def resetRoute_flat_def initialState_def setters)
qed

text \<open>
  C5. A reply with at least one feature stores one converted candidate per feature, in
  order, sets the selected index to 0 and shows the distance and the duration of
  candidate 0 (with their units); it also ends loading. Both components agree.
\<close>

theorem fetchRoute_success:
  assumes "fs \<noteq> []"
  shows "fetchRoute_reply cfg st (Resolved (Some fs)) =
           (st\<lparr>routes := map (routeOfFeature cfg) fs, selectedRouteIndex := 0,
               distance := route_distance (map (routeOfFeature cfg) fs ! 0) @ '' km'',
               duration := route_duration (map (routeOfFeature cfg) fs ! 0) @ '' min'',
               isLoadingRoute := False\<rparr>, [])
         \<and> fetchRoute_reply_flat cfg st (Resolved (Some fs)) = fetchRoute_reply cfg st (Resolved (Some fs))"
proof -
  obtain f fs' where fs: "fs = f # fs'"
    using assms by (cases fs) auto
  have eq: "fetchedRoute cfg = routeOfFeature cfg"
    by (rule ext) (simp add: fetchedRoute_def routeOfFeature_def)
  show ?thesis
    unfolding fs by (simp add: fetchRoute_reply_def fetchRoute_reply_flat_def eq setters)
qed

theorem fetchRoute_success_witness:
  "[feature1, feature2] \<noteq> []
   \<and> routes (fst (fetchRoute_reply cfg0 readyState (Resolved (Some [feature1, feature2])))) =
       [routeOfFeature cfg0 feature1, routeOfFeature cfg0 feature2]
   \<and> selectedRouteIndex (fst (fetchRoute_reply cfg0 readyState (Resolved (Some [feature1, feature2])))) = 0
   \<and> distance (fst (fetchRoute_reply cfg0 readyState (Resolved (Some [feature1, feature2])))) =
       route_distance (routeOfFeature cfg0 feature1) @ '' km''
   \<and> duration (fst (fetchRoute_reply_flat cfg0 readyState (Resolved (Some [feature1, feature2])))) =
       route_duration (routeOfFeature cfg0 feature1) @ '' min''"
proof -
  have ne: "[feature1, feature2] \<noteq> []" by simp
  show ?thesis
    using fetchRoute_success [OF ne, of cfg0 readyState] by simp
qed

text \<open>
  C6. With a valid index \<open>i\<close> (so the route list is not empty), choosing candidate \<open>i\<close>
  sets the selected index to \<open>i\<close> and the shown distance and duration to those of
  candidate \<open>i\<close>; the event has no effect at all besides (no request is sent), and origin,
  destination, mode, the route list and the error message stay as they were. Both
  components agree.
\<close>

theorem handleRouteChange_valid:
  assumes "i < length (routes st)"
  shows "step cfg st (RouteButtonClick i) =
           (st\<lparr>selectedRouteIndex := i,
               distance := route_distance (routes st ! i) @ '' km'',
               duration := route_duration (routes st ! i) @ '' min''\<rparr>, [])
         \<and> step_flat cfg st (RouteButtonClick i) = step cfg st (RouteButtonClick i)
         \<and> origin (fst (step cfg st (RouteButtonClick i))) = origin st
         \<and> destination (fst (step cfg st (RouteButtonClick i))) = destination st
         \<and> mode (fst (step cfg st (RouteButtonClick i))) = mode st
         \<and> routes (fst (step cfg st (RouteButtonClick i))) = routes st
         \<and> routeError (fst (step cfg st (RouteButtonClick i))) = routeError st"
  using assms
  by (simp add: step_def step_flat_def handleRouteChange_def handleRouteChange_flat_def setters)

theorem handleRouteChange_valid_witness:
  "0 < length (routes shownState)
   \<and> step cfg0 shownState (RouteButtonClick 0) =
       (shownState\<lparr>selectedRouteIndex := 0, distance := ''12.35 km'', duration := ''16.45 min''\<rparr>, [])
   \<and> step_flat cfg0 shownState (RouteButtonClick 0) =
       (shownState\<lparr>selectedRouteIndex := 0, distance := ''12.35 km'', duration := ''16.45 min''\<rparr>, [])"
proof -
  have len: "0 < length (routes shownState)"
    by (simp add: shownState_def)
  have d: "route_distance (routes shownState ! 0) = ''12.35''"
    unfolding shownState_def by (simp add: routeOfFeature_def feature1_def) code_simp
  have t: "route_duration (routes shownState ! 0) = ''16.45''"
    unfolding shownState_def by (simp add: routeOfFeature_def feature1_def) code_simp
  show ?thesis
    using handleRouteChange_valid [OF len, of cfg0] len d t by simp
qed

text \<open>
  C8 (as the code has it). When the search request fails, the handler logs the failure and
  changes nothing: the search results stay what they were (empty only if they were empty
  before) and no error message is set. A query of fewer than three characters stores the
  query, empties the result list and sends nothing. Both components agree.
\<close>

theorem handleSearch_failure_keeps_results:
  "handleSearch_reply st (Rejected msg) = (st, [ConsoleError ''Error fetching address suggestions:''])
   \<and> handleSearch_reply_flat st (Rejected msg) = (st, [ConsoleError ''Error fetching address suggestions:''])
   \<and> (length q < 3 \<longrightarrow>
        handleSearch st q = (st\<lparr>searchTerm := q, searchResults := []\<rparr>, []) \<and>
        handleSearch_flat st q = (st\<lparr>searchTerm := q, searchResults := []\<rparr>, []))"
  by (simp add: handleSearch_reply_def handleSearch_reply_flat_def handleSearch_def
      handleSearch_flat_def setters)

theorem handleSearch_failure_keeps_results_witness:
  "length ''lo'' < 3
   \<and> handleSearch shownState ''lo'' = (shownState\<lparr>searchTerm := ''lo'', searchResults := []\<rparr>, [])
   \<and> handleSearch_flat shownState ''lo'' = (shownState\<lparr>searchTerm := ''lo'', searchResults := []\<rparr>, [])
   \<and> searchResults (fst (handleSearch_reply shownState (Rejected ''Network Error''))) = [place1]"
  using handleSearch_failure_keeps_results [of shownState "''Network Error''" "''lo''"]
  by (simp add: shownState_def)

theorem handleSearch_failure_counterexample:
  "run step cfg0 initialSys
     [SearchInput ''lon'', SearchReply (Resolved [place1]), SearchInput ''lond'',
      SearchReply (Rejected ''Network Error'')] =
     Some (\<lparr>session = initialState\<lparr>searchTerm := ''lond'', searchResults := [place1]\<rparr>, inflight = 0\<rparr>,
           [GetSearch ''lon'', GetSearch ''lond'', ConsoleError ''Error fetching address suggestions:''])
   \<and> run step_flat cfg0 initialSys
     [SearchInput ''lon'', SearchReply (Resolved [place1]), SearchInput ''lond'',
      SearchReply (Rejected ''Network Error'')] =
     Some (\<lparr>session = initialState\<lparr>searchTerm := ''lond'', searchResults := [place1]\<rparr>, inflight = 0\<rparr>,
           [GetSearch ''lon'', GetSearch ''lond'', ConsoleError ''Error fetching address suggestions:''])
   \<and> searchResults (initialState\<lparr>searchTerm := ''lond'', searchResults := [place1]\<rparr>) \<noteq> []
   \<and> searchResults (fst (handleSearch_reply (initialState\<lparr>searchTerm := ''lond'', searchResults := [place1]\<rparr>)
         (Rejected ''Network Error''))) \<noteq> []
   \<and> searchResults (fst (handleSearch_reply_flat (initialState\<lparr>searchTerm := ''lond'', searchResults := [place1]\<rparr>)
         (Rejected ''Network Error''))) \<noteq> []"
proof -
  have r: "run step cfg0 initialSys
     [SearchInput ''lon'', SearchReply (Resolved [place1]), SearchInput ''lond'',
      SearchReply (Rejected ''Network Error'')] =
     Some (\<lparr>session = initialState\<lparr>searchTerm := ''lond'', searchResults := [place1]\<rparr>, inflight = 0\<rparr>,
           [GetSearch ''lon'', GetSearch ''lond'', ConsoleError ''Error fetching address suggestions:''])"
    "run step_flat cfg0 initialSys
     [SearchInput ''lon'', SearchReply (Resolved [place1]), SearchInput ''lond'',
      SearchReply (Rejected ''Network Error'')] =
     Some (\<lparr>session = initialState\<lparr>searchTerm := ''lond'', searchResults := [place1]\<rparr>, inflight = 0\<rparr>,
           [GetSearch ''lon'', GetSearch ''lond'', ConsoleError ''Error fetching address suggestions:''])"
    by code_simp+
  then show ?thesis
    by (simp add: handleSearch_reply_def handleSearch_reply_flat_def)
qed

section \<open>Lemmas on number formatting\<close>

lemma digit_char_0: "digit_char 0 = CHR ''0''"
  by code_simp

lemma decimal_small: "n < 10 \<Longrightarrow> decimal n = [digit_char n]"
  by (simp add: decimal.simps)

lemma decimal_step: "10 \<le> n \<Longrightarrow> decimal n = decimal (n div 10) @ [digit_char (n mod 10)]"
  by (subst decimal.simps) simp

lemma decimal_not_Nil: "decimal n \<noteq> []"
  by (subst decimal.simps) simp

lemma decimal_ge100:
  assumes "100 \<le> n"
  shows "decimal n = decimal (n div 100) @ [digit_char (n div 10 mod 10), digit_char (n mod 10)]"
proof -
  have "10 \<le> n" "10 \<le> n div 10" using assms by auto
  then have "decimal n = (decimal (n div 10 div 10) @ [digit_char (n div 10 mod 10)]) @ [digit_char (n mod 10)]"
    by (simp add: decimal_step)
  moreover have "n div 10 div 10 = n div 100" by (simp add: div_mult2_eq)
  ultimately show ?thesis by simp
qed

text \<open>Below \<open>10^21\<close>, \<open>toFixed(2)\<close> writes the number rounded to two decimal places.\<close>

lemma toFixed_two_decimals:
  assumes "\<bar>x\<bar> < 10 ^ 21"
  shows "toFixed ts 2 x = two_decimals x"
proof -
  define n where "n = hundredths x"
  have ab: "(if x < 0 then - x else x) = \<bar>x\<bar>" by simp
  have n: "nat \<lfloor>(if x < 0 then - x else x) * 10\<^sup>2 + 1 / 2\<rfloor> = n"
    unfolding ab by (simp add: n_def hundredths_def)
  have small: "\<not> 10 ^ 21 \<le> (if x < 0 then - x else x)"
    unfolding ab using assms by simp
  consider "n < 10" | "10 \<le> n" "n < 100" | "100 \<le> n" by linarith
  then have "(let m = decimal n;
                 m = (if (2::nat) \<noteq> 0 \<and> length m \<le> 2 then replicate (2 + 1 - length m) CHR ''0'' @ m else m)
             in take (length m - 2) m @ ''.'' @ drop (length m - 2) m)
           = decimal (n div 100) @ ''.'' @ [digit_char (n div 10 mod 10), digit_char (n mod 10)]"
  proof cases
    case 1
    then have "decimal n = [digit_char n]" "n div 100 = 0" "n div 10 = 0" "n mod 10 = n"
      by (simp_all add: decimal_small)
    then show ?thesis
      by (simp add: decimal_small numeral_3_eq_3 numeral_2_eq_2 digit_char_0)
  next
    case 2
    then have "decimal n = [digit_char (n div 10), digit_char (n mod 10)]" "n div 100 = 0" "n div 10 mod 10 = n div 10"
      by (simp_all add: decimal_step decimal_small)
    then show ?thesis
      by (simp add: decimal_small digit_char_0)
  next
    case 3
    then show ?thesis
      by (simp add: decimal_ge100 decimal_not_Nil Let_def)
  qed
  then show ?thesis
    unfolding toFixed_def two_decimals_def n_def [symmetric]
    using small n by (simp add: Let_def)
qed

lemma hundredths_near: "\<bar>of_nat (hundredths x) / 100 - \<bar>x\<bar>\<bar> \<le> 1 / 200"
proof -
  define y where "y = \<bar>x\<bar> * 100 + 1 / 2"
  have y0: "0 \<le> y" by (simp add: y_def)
  then have "0 \<le> \<lfloor>y\<rfloor>" by simp
  then have n: "(of_nat (hundredths x) :: rat) = of_int \<lfloor>y\<rfloor>"
    by (simp add: hundredths_def y_def)
  have "of_int \<lfloor>y\<rfloor> \<le> y" "y < of_int \<lfloor>y\<rfloor> + 1" by linarith+
  then have "\<bar>of_int \<lfloor>y\<rfloor> - \<bar>x\<bar> * 100\<bar> \<le> 1 / 2"
    unfolding y_def by linarith
  moreover have "of_int \<lfloor>y\<rfloor> / 100 - \<bar>x\<bar> = (of_int \<lfloor>y\<rfloor> - \<bar>x\<bar> * 100) / 100"
    by simp
  ultimately have "\<bar>of_int \<lfloor>y\<rfloor> / 100 - \<bar>x\<bar>\<bar> \<le> (1 / 2) / 100"
    by (simp only: abs_divide)
  then show ?thesis unfolding n by simp
qed

section \<open>Lemmas on the rounding of a quotient\<close>

lemma pow2_powi: "pow2 k = 2 powi k"
  by (simp add: pow2_def power_int_def inverse_eq_divide power_one_over)

lemma round_half_even_near: "\<bar>of_int (round_half_even m) - m\<bar> \<le> 1 / 2"
proof -
  have "of_int \<lfloor>m\<rfloor> \<le> m" "m < of_int \<lfloor>m\<rfloor> + 1" by linarith+
  then show ?thesis
    by (auto simp: round_half_even_def Let_def)
qed

lemma binade_lower:
  assumes "0 < a"
  shows "pow2 (binade a) \<le> a"
proof -
  obtain p q where pq: "quotient_of a = (p, q)" by (cases "quotient_of a")
  then have q: "0 < q" and a: "a = of_int p / of_int q"
    using quotient_of_denom_pos quotient_of_div by auto
  with assms have p: "0 < p"
    by (simp add: zero_less_divide_iff)
  define k where "k = bitlen p - bitlen q"
  show ?thesis
  proof (cases "pow2 k \<le> a")
    case True
    then show ?thesis by (simp add: binade_def pq k_def)
  next
    case False
    then have b: "binade a = k - 1" by (simp add: binade_def pq k_def)
    have bp: "1 \<le> bitlen p" "1 \<le> bitlen q" using p q by (auto simp: bitlen_alt_def)
    have "2 ^ nat (bitlen p - 1) \<le> p" using bitlen_bounds [OF p] by simp
    then have "(2::rat) ^ nat (bitlen p - 1) \<le> of_int p"
      by (metis of_int_le_iff of_int_numeral of_int_power)
    then have lp: "(2::rat) powi (bitlen p - 1) \<le> of_int p"
      using bp by (simp add: power_int_def)
    have "q < 2 ^ nat (bitlen q)" using bitlen_bounds [OF q] by simp
    then have "of_int q < (2::rat) ^ nat (bitlen q)"
      by (metis of_int_less_iff of_int_numeral of_int_power)
    then have lq: "of_int q < (2::rat) powi (bitlen q)"
      using bp by (simp add: power_int_def)
    have "(2::rat) powi (k - 1) = 2 powi (bitlen p - 1) / 2 powi (bitlen q)"
      by (simp add: k_def power_int_diff)
    also have "\<dots> \<le> of_int p / 2 powi (bitlen q)"
      using lp by (simp add: divide_right_mono)
    also have "\<dots> \<le> of_int p / of_int q"
      using lq p q by (simp add: frac_le)
    finally have "pow2 (k - 1) \<le> a" by (simp add: pow2_powi a)
    then show ?thesis by (simp only: b)
  qed
qed

text \<open>
  The rounded value is within half a unit in the last place: a relative error of at most
  \<open>2^-53\<close>, or \<open>2^-1075\<close> in the subnormal range.
\<close>

lemma fl_error: "\<bar>fl y - y\<bar> \<le> max (\<bar>y\<bar> / 2 ^ 53) (pow2 (- 1075))"
proof (cases "y = 0")
  case True
  then show ?thesis by (simp add: fl_def pow2_def)
next
  case False
  define a where "a = \<bar>y\<bar>"
  define e where "e = max (binade a) (- 1022)"
  define u where "u = pow2 (e - 52)"
  define n where "n = round_half_even (a / u)"
  have a: "0 < a" using False by (simp add: a_def)
  have u: "0 < u" by (simp add: u_def pow2_powi)
  have fl: "fl y = sgn y * of_int n * u"
    using False by (simp add: fl_def Let_def a_def e_def u_def n_def)
  have y: "y = sgn y * a" by (simp add: a_def sgn_mult_abs)
  have "fl y - y = sgn y * ((of_int n - a / u) * u)"
    using u by (subst (2) y) (simp add: fl algebra_simps)
  then have "\<bar>fl y - y\<bar> = \<bar>of_int n - a / u\<bar> * u"
    using False u by (simp add: abs_mult abs_sgn_eq)
  also have "\<dots> \<le> 1 / 2 * u"
    using round_half_even_near [of "a / u"] u unfolding n_def
    by (intro mult_right_mono) auto
  also have "\<dots> = pow2 (e - 53)"
    by (simp add: u_def pow2_powi power_int_diff)
  finally have bound: "\<bar>fl y - y\<bar> \<le> pow2 (e - 53)" .
  show ?thesis
  proof (cases "- 1022 \<le> binade a")
    case True
    then have "e = binade a" by (simp add: e_def)
    then have "pow2 (e - 53) = pow2 (binade a) / 2 ^ 53"
      by (simp add: pow2_powi power_int_diff)
    also have "\<dots> \<le> a / 2 ^ 53"
      using binade_lower [OF a] by (simp add: divide_right_mono)
    finally show ?thesis using bound by (simp add: a_def)
  next
    case False
    then have "e = - 1022" by (simp add: e_def)
    then show ?thesis using bound by simp
  qed
qed

text \<open>The number of hundredths written for a computed quotient, against the exact quotient.\<close>

lemma hundredths_js_div:
  "\<bar>of_nat (hundredths (js_div a b)) / 100 - \<bar>a / b\<bar>\<bar>
     \<le> 1 / 200 + max (\<bar>a / b\<bar> / 2 ^ 53) (pow2 (- 1075))"
proof -
  have "\<bar>\<bar>js_div a b\<bar> - \<bar>a / b\<bar>\<bar> \<le> \<bar>js_div a b - a / b\<bar>"
    by (rule abs_triangle_ineq3)
  also have "\<dots> \<le> max (\<bar>a / b\<bar> / 2 ^ 53) (pow2 (- 1075))"
    unfolding js_div_def by (rule fl_error)
  finally have "\<bar>\<bar>js_div a b\<bar> - \<bar>a / b\<bar>\<bar> \<le> max (\<bar>a / b\<bar> / 2 ^ 53) (pow2 (- 1075))" .
  moreover have "\<bar>of_nat (hundredths (js_div a b)) / 100 - \<bar>js_div a b\<bar>\<bar> \<le> 1 / 200"
    by (rule hundredths_near)
  ultimately show ?thesis by linarith
qed

text \<open>
  An exact quotient that lies half way between two hundredths is written as the double
  nearest to it rounds: 1005 meters are written \<open>1.00\<close>, because the double nearest to
  1.005 lies below it, and 12345 meters are written \<open>12.35\<close>, because the double nearest
  to 12.345 lies above it.
\<close>

lemma half_way_examples:
  "toFixed ts 2 (js_div 1005 1000) = ''1.00''" "js_div 1005 1000 < 1005 / 1000"
  "toFixed ts 2 (js_div 12345 1000) = ''12.35''" "12345 / 1000 < js_div 12345 1000"
proof -
  have "\<bar>js_div 1005 1000\<bar> < 10 ^ 21" by code_simp
  then have "toFixed ts 2 (js_div 1005 1000) = two_decimals (js_div 1005 1000)"
    by (rule toFixed_two_decimals)
  also have "\<dots> = ''1.00''" by code_simp
  finally show "toFixed ts 2 (js_div 1005 1000) = ''1.00''" .
  have "\<bar>js_div 12345 1000\<bar> < 10 ^ 21" by code_simp
  then have "toFixed ts 2 (js_div 12345 1000) = two_decimals (js_div 12345 1000)"
    by (rule toFixed_two_decimals)
  also have "\<dots> = ''12.35''" by code_simp
  finally show "toFixed ts 2 (js_div 12345 1000) = ''12.35''" .
  show "js_div 1005 1000 < 1005 / 1000" by code_simp
  show "12345 / 1000 < js_div 12345 1000" by code_simp
qed

lemma fetchedRoute_eq: "fetchedRoute cfg = routeOfFeature cfg"
  by (rule ext) (simp add: fetchedRoute_def routeOfFeature_def)

text \<open>
  C3. For a feature whose quotients stay below \<open>10^21\<close> in magnitude (where \<open>toFixed\<close>
  writes fixed notation), the candidate's distance is the double-precision quotient of the
  distance in meters by 1000 and its duration the quotient of the duration in seconds by 60,
  each written rounded to two decimal places: the written number of hundredths is within
  half a hundredth of the computed quotient, the computed quotient is the exact one up to
  the rounding of one division, and so the written number is within half a hundredth plus
  that rounding of the exact quotient. Both components convert alike. In particular 12345
  meters are shown as "12.35 km" and 987 seconds as "16.45 min".
\<close>

theorem routeOfFeature_two_decimals:
  assumes "\<bar>js_div (summary_distance f) 1000\<bar> < 10 ^ 21"
    and "\<bar>js_div (summary_duration f) 60\<bar> < 10 ^ 21"
  shows "route_distance (routeOfFeature cfg f) = two_decimals (js_div (summary_distance f) 1000)
       \<and> route_duration (routeOfFeature cfg f) = two_decimals (js_div (summary_duration f) 60)
       \<and> fetchedRoute cfg f = routeOfFeature cfg f
       \<and> \<bar>of_nat (hundredths (js_div (summary_distance f) 1000)) / 100
            - \<bar>js_div (summary_distance f) 1000\<bar>\<bar> \<le> 1 / 200
       \<and> \<bar>of_nat (hundredths (js_div (summary_duration f) 60)) / 100
            - \<bar>js_div (summary_duration f) 60\<bar>\<bar> \<le> 1 / 200
       \<and> \<bar>js_div (summary_distance f) 1000 - summary_distance f / 1000\<bar>
            \<le> max (\<bar>summary_distance f / 1000\<bar> / 2 ^ 53) (pow2 (- 1075))
       \<and> \<bar>js_div (summary_duration f) 60 - summary_duration f / 60\<bar>
            \<le> max (\<bar>summary_duration f / 60\<bar> / 2 ^ 53) (pow2 (- 1075))
       \<and> \<bar>of_nat (hundredths (js_div (summary_distance f) 1000)) / 100 - \<bar>summary_distance f / 1000\<bar>\<bar>
            \<le> 1 / 200 + max (\<bar>summary_distance f / 1000\<bar> / 2 ^ 53) (pow2 (- 1075))
       \<and> \<bar>of_nat (hundredths (js_div (summary_duration f) 60)) / 100 - \<bar>summary_duration f / 60\<bar>\<bar>
            \<le> 1 / 200 + max (\<bar>summary_duration f / 60\<bar> / 2 ^ 53) (pow2 (- 1075))
       \<and> distance (fst (fetchRoute_reply cfg st
            (Resolved (Some [\<lparr>geometry_coordinates = g, summary_distance = 12345, summary_duration = 987\<rparr>]))))
           = ''12.35 km''
       \<and> duration (fst (fetchRoute_reply cfg st
            (Resolved (Some [\<lparr>geometry_coordinates = g, summary_distance = 12345, summary_duration = 987\<rparr>]))))
           = ''16.45 min''"
proof -
  have d: "toFixed (numberToString cfg) 2 (js_div 12345 1000) = ''12.35''"
  proof -
    have "\<bar>js_div 12345 1000\<bar> < 10 ^ 21" by code_simp
    then have "toFixed (numberToString cfg) 2 (js_div 12345 1000) = two_decimals (js_div 12345 1000)"
      by (rule toFixed_two_decimals)
    also have "\<dots> = ''12.35''" by code_simp
    finally show ?thesis .
  qed
  have t: "toFixed (numberToString cfg) 2 (js_div 987 60) = ''16.45''"
  proof -
    have "\<bar>js_div 987 60\<bar> < 10 ^ 21" by code_simp
    then have "toFixed (numberToString cfg) 2 (js_div 987 60) = two_decimals (js_div 987 60)"
      by (rule toFixed_two_decimals)
    also have "\<dots> = ''16.45''" by code_simp
    finally show ?thesis .
  qed
  have c1: "route_distance (routeOfFeature cfg f) = two_decimals (js_div (summary_distance f) 1000)"
    using assms(1) by (simp add: routeOfFeature_def toFixed_two_decimals)
  have c2: "route_duration (routeOfFeature cfg f) = two_decimals (js_div (summary_duration f) 60)"
    using assms(2) by (simp add: routeOfFeature_def toFixed_two_decimals)
  have c3: "fetchedRoute cfg f = routeOfFeature cfg f"
    by (simp add: fetchedRoute_eq)
  have c6: "\<bar>js_div (summary_distance f) 1000 - summary_distance f / 1000\<bar>
            \<le> max (\<bar>summary_distance f / 1000\<bar> / 2 ^ 53) (pow2 (- 1075))"
    unfolding js_div_def by (rule fl_error)
  have c7: "\<bar>js_div (summary_duration f) 60 - summary_duration f / 60\<bar>
            \<le> max (\<bar>summary_duration f / 60\<bar> / 2 ^ 53) (pow2 (- 1075))"
    unfolding js_div_def by (rule fl_error)
  have c8: "distance (fst (fetchRoute_reply cfg st
            (Resolved (Some [\<lparr>geometry_coordinates = g, summary_distance = 12345, summary_duration = 987\<rparr>]))))
           = ''12.35 km''"
    using d by (simp add: fetchRoute_reply_def routeOfFeature_def)
  have c9: "duration (fst (fetchRoute_reply cfg st
            (Resolved (Some [\<lparr>geometry_coordinates = g, summary_distance = 12345, summary_duration = 987\<rparr>]))))
           = ''16.45 min''"
    using t by (simp add: fetchRoute_reply_def routeOfFeature_def)
  from c1 c2 c3 hundredths_near hundredths_near c6 c7 hundredths_js_div hundredths_js_div c8 c9
  show ?thesis
    by (intro conjI)
qed

theorem routeOfFeature_two_decimals_witness:
  "\<bar>js_div (summary_distance feature2) 1000\<bar> < 10 ^ 21
   \<and> \<bar>js_div (summary_duration feature2) 60\<bar> < 10 ^ 21
   \<and> route_distance (routeOfFeature cfg0 feature2) = ''4.80''
   \<and> route_duration (routeOfFeature cfg0 feature2) = ''10.83''
   \<and> hundredths (js_div (summary_distance feature2) 1000) = 480
   \<and> hundredths (js_div (summary_duration feature2) 60) = 1083"
proof -
  have a: "\<bar>js_div (summary_distance feature2) 1000\<bar> < 10 ^ 21" by code_simp
  have b: "\<bar>js_div (summary_duration feature2) 60\<bar> < 10 ^ 21" by code_simp
  have c: "two_decimals (js_div (summary_distance feature2) 1000) = ''4.80''" by code_simp
  have d: "two_decimals (js_div (summary_duration feature2) 60) = ''10.83''" by code_simp
  have e: "hundredths (js_div (summary_distance feature2) 1000) = 480" by code_simp
  have f: "hundredths (js_div (summary_duration feature2) 60) = 1083" by code_simp
  show ?thesis
    using routeOfFeature_two_decimals [OF a b, of cfg0] a b c d e f by simp
qed

section \<open>Lemmas on events and runs\<close>

lemma sys_step_fst:
  "fst (sys_step c cfg s ev) =
     \<lparr>session = fst (c cfg (session s) ev),
      inflight = inflight s + length (filter isPost (snd (c cfg (session s) ev)))
                 - (if isDirectionsReply ev then 1 else 0)\<rparr>"
  by (simp add: sys_step_def split: prod.splits)

lemma sys_step_snd: "snd (sys_step c cfg s ev) = snd (c cfg (session s) ev)"
  by (simp add: sys_step_def split: prod.splits)

text \<open>A property kept by every enabled event holds after every run.\<close>

lemma run_inv:
  assumes step: "\<And>s ev. P s \<Longrightarrow> enabled s ev \<Longrightarrow> P (fst (sys_step c cfg s ev))"
  shows "P s \<Longrightarrow> run c cfg s evs = Some (s', es) \<Longrightarrow> P s'"
proof (induction evs arbitrary: s es)
  case Nil
  then show ?case by simp
next
  case (Cons ev evs)
  from Cons.prems(2) have en: "enabled s ev"
    by (simp split: if_splits)
  obtain s1 e1 where s1: "sys_step c cfg s ev = (s1, e1)" by (cases "sys_step c cfg s ev")
  with Cons.prems(2) en obtain e2 where "run c cfg s1 evs = Some (s', e2)"
    by (auto split: option.splits)
  moreover have "P s1" using step [OF Cons.prems(1) en] s1 by simp
  ultimately show ?case using Cons.IH by blast
qed

subsection \<open>The route request of the hook-based component\<close>

lemma fetchRoute_inv:
  assumes "\<not> isLoadingRoute st" "n = 0" "routes st \<noteq> [] \<longrightarrow> selectedRouteIndex st < length (routes st)"
  shows "route_inv \<lparr>session = fst (fetchRoute cfg st),
                    inflight = n + length (filter isPost (snd (fetchRoute cfg st)))\<rparr>"
  using assms by (auto simp: route_inv_def fetchRoute_def split: option.splits)

lemma routeEffect_inv:
  assumes "route_inv \<lparr>session = st, inflight = n\<rparr>"
  shows "route_inv \<lparr>session = fst (routeEffect cfg st),
                    inflight = n + length (filter isPost (snd (routeEffect cfg st)))\<rparr>"
proof (cases "origin st \<noteq> None \<and> destination st \<noteq> None \<and> \<not> isLoadingRoute st")
  case True
  then have "routeEffect cfg st = fetchRoute cfg st" by (simp add: routeEffect_def)
  moreover from True assms have "n = 0" by (simp add: route_inv_def)
  ultimately show ?thesis using fetchRoute_inv [of st n cfg] True assms
    by (simp add: route_inv_def)
next
  case False
  then have "routeEffect cfg st = (st, [])" by (auto simp add: routeEffect_def)
  with assms show ?thesis by simp
qed

lemma andThen_inv:
  assumes "route_inv \<lparr>session = fst r, inflight = n\<rparr>" "filter isPost (snd r) = []"
  shows "route_inv \<lparr>session = fst (andThen r (routeEffect cfg)),
                    inflight = n + length (filter isPost (snd (andThen r (routeEffect cfg))))\<rparr>"
  using routeEffect_inv [OF assms(1), of cfg] assms(2) by (simp add: andThen_simps)

lemma step_inv:
  assumes "route_inv s" "enabled s ev"
  shows "route_inv (fst (sys_step step cfg s ev))"
proof -
  obtain st n where s: "s = \<lparr>session = st, inflight = n\<rparr>" by (cases s) auto
  show ?thesis
  proof (cases ev)
    case (MapClick p)
    have "route_inv \<lparr>session = fst (mapClick st p), inflight = n\<rparr>" "filter isPost (snd (mapClick st p)) = []"
      using assms(1) by (auto simp: s route_inv_def mapClick_def)
    from andThen_inv [OF this] show ?thesis
      by (simp add: MapClick s sys_step_fst step_def)
  next
    case (SearchResultClick la lo)
    have "route_inv \<lparr>session = fst (selectLocation st la lo), inflight = n\<rparr>"
      "filter isPost (snd (selectLocation st la lo)) = []"
      using assms(1) by (auto simp: s route_inv_def selectLocation_def Let_def)
    from andThen_inv [OF this] show ?thesis
      by (simp add: SearchResultClick s sys_step_fst step_def)
  next
    case (ModeSelect m)
    have "route_inv \<lparr>session = st\<lparr>mode := m\<rparr>, inflight = n\<rparr>"
      using assms(1) by (auto simp: s route_inv_def)
    from routeEffect_inv [OF this] assms(1) show ?thesis
      by (simp add: ModeSelect s sys_step_fst step_def)
  next
    case GetRouteClick
    with assms fetchRoute_inv [of st n cfg] show ?thesis
      by (simp add: s sys_step_fst step_def route_inv_def)
  next
    case ResetClick
    have "route_inv \<lparr>session = fst (resetRoute st, []), inflight = n\<rparr>"
      "filter isPost (snd (resetRoute st, [])) = []"
      using assms(1) by (auto simp: s route_inv_def resetRoute_def)
    from andThen_inv [OF this] show ?thesis
      by (simp add: ResetClick s sys_step_fst step_def)
  next
    case (PositionReply r)
    have "route_inv \<lparr>session = fst (setCurrentLocation_reply st r), inflight = n\<rparr>"
      "filter isPost (snd (setCurrentLocation_reply st r)) = []"
      using assms(1) by (auto simp: s route_inv_def setCurrentLocation_reply_def split: option.splits)
    from andThen_inv [OF this] show ?thesis
      by (simp add: PositionReply s sys_step_fst step_def)
  next
    case (DirectionsReply r)
    with assms show ?thesis
      by (auto simp: s sys_step_fst step_def route_inv_def fetchRoute_reply_def fetchRoute_failed_def Let_def
          split: response.splits option.splits list.splits if_splits)
  next
    case (RouteButtonClick i)
    with assms show ?thesis
      by (auto simp: s sys_step_fst step_def route_inv_def handleRouteChange_def)
  next
    case (SearchInput t)
    with assms show ?thesis
      by (auto simp: s sys_step_fst step_def route_inv_def handleSearch_def Let_def)
  next
    case MyLocationClick
    with assms show ?thesis
      by (auto simp: s sys_step_fst step_def route_inv_def setCurrentLocation_def)
  next
    case (ReverseReply slot b r)
    with assms show ?thesis
      by (auto simp: s sys_step_fst step_def route_inv_def fetchLocationName_reply_def setName_def
          selectLocation_done_def split: response.splits option.splits name_slot.splits)
  next
    case (SearchReply r)
    with assms show ?thesis
      by (auto simp: s sys_step_fst step_def route_inv_def handleSearch_reply_def split: response.splits)
  qed
qed

lemma route_inv_initial: "route_inv initialSys"
  by (simp add: route_inv_def initialSys_def initialState_def)

lemma run_route_inv:
  assumes "run step cfg initialSys evs = Some (s, es)"
  shows "route_inv s"
  using run_inv [of route_inv step cfg initialSys evs s es] step_inv route_inv_initial assms
  by blast

subsection \<open>The flat component follows the hook-based one\<close>

lemmas agree_defs = agree_def same_fields_def credential_wording_def empty_result_wording_def

lemma fetchRoute_agree:
  assumes "agree a b"
  shows "agree (fst (fetchRoute cfg a)) (fst (fetchRoute_flat cfg b))
         \<and> snd (fetchRoute cfg a) = snd (fetchRoute_flat cfg b)"
  using assms
  by (auto simp: agree_defs fetchRoute_def fetchRoute_flat_def setters orsUrl_def
      split: option.splits)

lemma routeEffect_agree:
  assumes "agree a b"
  shows "agree (fst (routeEffect cfg a)) (fst (routeEffect_flat cfg b))
         \<and> snd (routeEffect cfg a) = snd (routeEffect_flat cfg b)"
proof -
  have "(origin a \<noteq> None \<and> destination a \<noteq> None \<and> \<not> isLoadingRoute a) =
        (origin b \<noteq> None \<and> destination b \<noteq> None \<and> \<not> isLoadingRoute b)"
    using assms by (simp add: agree_defs)
  then show ?thesis
    using assms fetchRoute_agree [OF assms, of cfg]
    by (simp add: routeEffect_def routeEffect_flat_def)
qed

lemma andThen_agree:
  assumes "agree (fst r) (fst r')" "snd r = snd r'"
  shows "agree (fst (andThen r (routeEffect cfg))) (fst (andThen r' (routeEffect_flat cfg)))
         \<and> snd (andThen r (routeEffect cfg)) = snd (andThen r' (routeEffect_flat cfg))"
  using routeEffect_agree [OF assms(1), of cfg] assms(2) by (simp add: andThen_simps)

lemma step_agree:
  assumes "agree a b" "enabled s ev" "session s = a"
  shows "agree (fst (step cfg a ev)) (fst (step_flat cfg b ev))
         \<and> snd (step cfg a ev) = snd (step_flat cfg b ev)"
proof (cases ev)
  case (MapClick p)
  have "agree (fst (mapClick a p)) (fst (mapClick_flat b p))" "snd (mapClick a p) = snd (mapClick_flat b p)"
    using assms(1) by (auto simp: agree_defs mapClick_def mapClick_flat_def setters)
  from andThen_agree [OF this] show ?thesis
    by (simp add: MapClick step_def step_flat_def)
next
  case (SearchInput t)
  with assms(1) show ?thesis
    by (auto simp: step_def step_flat_def agree_defs handleSearch_def handleSearch_flat_def Let_def setters)
next
  case (SearchResultClick la lo)
  have "agree (fst (selectLocation a la lo)) (fst (selectLocation_flat b la lo))"
    "snd (selectLocation a la lo) = snd (selectLocation_flat b la lo)"
    using assms(1) by (auto simp: agree_defs selectLocation_def Let_def selectLocation_flat_def setters)
  from andThen_agree [OF this] show ?thesis
    by (simp add: SearchResultClick step_def step_flat_def)
next
  case MyLocationClick
  with assms(1) show ?thesis
    by (auto simp: step_def step_flat_def setCurrentLocation_def setCurrentLocationAsOrigin_def)
next
  case (ModeSelect m)
  have "agree (a\<lparr>mode := m\<rparr>) (setMode m b)"
    using assms(1) by (simp add: agree_defs setters)
  from routeEffect_agree [OF this] assms(1) show ?thesis
    by (auto simp add: ModeSelect step_def step_flat_def agree_defs)
next
  case (RouteButtonClick i)
  with assms show ?thesis
    by (auto simp: step_def step_flat_def agree_defs handleRouteChange_def handleRouteChange_flat_def
        Let_def setters)
next
  case GetRouteClick
  with fetchRoute_agree [OF assms(1)] show ?thesis
    by (simp add: step_def step_flat_def)
next
  case ResetClick
  have "agree (fst (resetRoute a, [])) (fst (resetRoute_flat b, []))"
    "snd (resetRoute a, []) = snd (resetRoute_flat b, [])"
    using assms(1) by (auto simp: agree_defs resetRoute_def resetRoute_flat_def setters)
  from andThen_agree [OF this] show ?thesis
    by (simp add: ResetClick step_def step_flat_def)
next
  case (DirectionsReply r)
  with assms(1) show ?thesis
    by (auto simp: step_def step_flat_def agree_defs fetchRoute_reply_def fetchRoute_reply_flat_def
        fetchRoute_failed_def fetchRoute_failed_flat_def fetchedRoute_eq Let_def setters
        split: response.splits option.splits list.splits)
next
  case (ReverseReply slot fromSearch r)
  with assms(1) show ?thesis
    by (auto simp: step_def step_flat_def agree_defs fetchLocationName_reply_def
        fetchLocationName_reply_flat_def setName_def setLocationName_def selectLocation_done_def
        selectLocation_done_flat_def setters
        split: response.splits option.splits name_slot.splits)
next
  case (SearchReply r)
  with assms(1) show ?thesis
    by (auto simp: step_def step_flat_def agree_defs handleSearch_reply_def handleSearch_reply_flat_def
        setters split: response.splits)
next
  case (PositionReply r)
  have "agree (fst (setCurrentLocation_reply a r)) (fst (setCurrentLocationAsOrigin_reply b r))"
    "snd (setCurrentLocation_reply a r) = snd (setCurrentLocationAsOrigin_reply b r)"
    using assms(1)
    by (auto simp: agree_defs setCurrentLocation_reply_def setCurrentLocationAsOrigin_reply_def setters
        split: option.splits)
  from andThen_agree [OF this] show ?thesis
    by (simp add: PositionReply step_def step_flat_def)
qed

lemma enabled_agree:
  assumes "agree (session s) (session t)" "inflight s = inflight t"
  shows "enabled s ev = enabled t ev"
  using assms by (cases ev) (auto simp: agree_defs)

lemma run_agree:
  assumes "agree (session s) (session t)" "inflight s = inflight t"
  shows "runs_agree (run step cfg s evs) (run step_flat cfg t evs)"
  using assms
proof (induction evs arbitrary: s t)
  case Nil
  then show ?case by (simp add: runs_agree_def)
next
  case (Cons ev evs)
  show ?case
  proof (cases "enabled s ev")
    case False
    with enabled_agree [OF Cons.prems, of ev] show ?thesis
      by (simp add: runs_agree_def)
  next
    case True
    then have en: "enabled t ev" using enabled_agree [OF Cons.prems, of ev] by simp
    from step_agree [OF Cons.prems(1) True refl, of cfg]
    have st: "agree (fst (step cfg (session s) ev)) (fst (step_flat cfg (session t) ev))"
      and ef: "snd (step cfg (session s) ev) = snd (step_flat cfg (session t) ev)" by auto
    obtain s1 e1 where s1: "sys_step step cfg s ev = (s1, e1)" by (cases "sys_step step cfg s ev")
    obtain t1 f1 where t1: "sys_step step_flat cfg t ev = (t1, f1)" by (cases "sys_step step_flat cfg t ev")
    have a1: "agree (session s1) (session t1)"
      using st s1 t1 sys_step_fst [of step cfg s ev] sys_step_fst [of step_flat cfg t ev] by simp
    have i1: "inflight s1 = inflight t1"
      using ef s1 t1 Cons.prems(2) sys_step_fst [of step cfg s ev] sys_step_fst [of step_flat cfg t ev]
      by simp
    have e1: "e1 = f1"
      using ef s1 t1 sys_step_snd [of step cfg s ev] sys_step_snd [of step_flat cfg t ev] by simp
    from Cons.IH [OF a1 i1] show ?thesis
      using True en s1 t1 e1
      by (auto simp: runs_agree_def split: option.splits)
  qed
qed

lemma agree_initial: "agree (session initialSys) (session initialSys)"
  by (simp add: agree_defs)

lemma run_flat_route_inv:
  assumes "run step_flat cfg initialSys evs = Some (t, es)"
  shows "route_inv t"
proof -
  have "runs_agree (run step cfg initialSys evs) (run step_flat cfg initialSys evs)"
    by (rule run_agree [OF agree_initial refl])
  with assms obtain s where s: "run step cfg initialSys evs = Some (s, es)"
    and i: "inflight s = inflight t" and a: "agree (session s) (session t)"
    by (auto simp: runs_agree_def split: option.splits)
  from run_route_inv [OF s] i a show ?thesis
    by (simp add: route_inv_def agree_defs)
qed

lemma run_either_route_inv:
  assumes "run step cfg initialSys evs = Some (s, es) \<or> run step_flat cfg initialSys evs = Some (s, es)"
  shows "route_inv s"
  using assms run_route_inv run_flat_route_inv by blast

section \<open>Properties of runs\<close>

lemma run_loadingEvents:
  "run step cfg0 initialSys loadingEvents = Some (loadingSys, loadingEffects)"
  "run step_flat cfg0 initialSys loadingEvents = Some (loadingSys, loadingEffects)"
  by code_simp+

lemma run_staleEvents:
  "run step cfg0 initialSys staleEvents = Some (staleSys, loadingEffects)"
  "run step_flat cfg0 initialSys staleEvents = Some (staleSys, loadingEffects)"
  by code_simp+

lemma run_chooseEvents:
  "run step cfg0 initialSys chooseEvents = Some (chosenSys, loadingEffects)"
  "run step_flat cfg0 initialSys chooseEvents = Some (chosenSys, loadingEffects)"
  by code_simp+

text \<open>
  C9. After every run from the initial state (events of the rendered page and replies, in
  any enabled order), in either component: if the route list is not empty, the selected
  index is a position of it.
\<close>

theorem selected_index_valid:
  assumes "run step cfg initialSys evs = Some (s, es) \<or> run step_flat cfg initialSys evs = Some (s, es)"
    and "routes (session s) \<noteq> []"
  shows "selectedRouteIndex (session s) < length (routes (session s))"
  using run_either_route_inv [OF assms(1)] assms(2) by (simp add: route_inv_def)

theorem selected_index_valid_witness:
  "run step cfg0 initialSys chooseEvents = Some (chosenSys, loadingEffects)
   \<and> run step_flat cfg0 initialSys chooseEvents = Some (chosenSys, loadingEffects)
   \<and> routes (session chosenSys) \<noteq> []
   \<and> selectedRouteIndex (session chosenSys) = 1
   \<and> selectedRouteIndex (session chosenSys) < length (routes (session chosenSys))"
proof -
  have ne: "routes (session chosenSys) \<noteq> []" by (simp add: chosenSys_def)
  have one: "selectedRouteIndex (session chosenSys) = 1" by (simp add: chosenSys_def)
  from selected_index_valid [OF disjI1 [OF run_chooseEvents(1)] ne]
    selected_index_valid [OF disjI2 [OF run_chooseEvents(2)] ne]
  show ?thesis using run_chooseEvents ne one by simp
qed

text \<open>
  C7. With both points present and an empty credential, the fetch sets the missing-key
  message and sends nothing. When a request is in flight after a run from the initial state
  and its reply has no features (the list is missing or empty), the reply event sets the
  message "Failed to fetch route: No routes found." (flat component: "... No routes found in
  the API response."), ends loading, logs the error, and the route list is empty.
\<close>

theorem fetchRoute_configuration_and_empty_result:
  "(origin st \<noteq> None \<and> destination st \<noteq> None \<and> orsKey cfg = '''' \<longrightarrow>
      fetchRoute cfg st = (st\<lparr>routeError := ''API key is missing.''\<rparr>, []) \<and>
      fetchRoute_flat cfg st =
        (st\<lparr>routeError := ''API key is missing. Please configure the OpenRouteService API key.''\<rparr>, []))
   \<and> (run step cfg initialSys evs = Some (s, es) \<and> enabled s (DirectionsReply r) \<and>
       (r = Resolved None \<or> r = Resolved (Some [])) \<longrightarrow>
         step cfg (session s) (DirectionsReply r) =
           ((session s)\<lparr>routeError := ''Failed to fetch route: No routes found.'',
                        isLoadingRoute := False\<rparr>, [ConsoleError ''Error fetching route:'']) \<and>
         routes (fst (step cfg (session s) (DirectionsReply r))) = [])
   \<and> (run step_flat cfg initialSys evs = Some (s, es) \<and> enabled s (DirectionsReply r) \<and>
       (r = Resolved None \<or> r = Resolved (Some [])) \<longrightarrow>
         step_flat cfg (session s) (DirectionsReply r) =
           ((session s)\<lparr>routeError := ''Failed to fetch route: No routes found in the API response.'',
                        isLoadingRoute := False\<rparr>, [ConsoleError ''Error fetching route:'']) \<and>
         routes (fst (step_flat cfg (session s) (DirectionsReply r))) = [])"
proof (intro conjI impI)
  assume "origin st \<noteq> None \<and> destination st \<noteq> None \<and> orsKey cfg = ''''"
  then show "fetchRoute cfg st = (st\<lparr>routeError := ''API key is missing.''\<rparr>, [])"
    and "fetchRoute_flat cfg st =
        (st\<lparr>routeError := ''API key is missing. Please configure the OpenRouteService API key.''\<rparr>, [])"
    by (auto simp: fetchRoute_def fetchRoute_flat_def setters)
next
  assume a: "run step cfg initialSys evs = Some (s, es) \<and> enabled s (DirectionsReply r) \<and>
       (r = Resolved None \<or> r = Resolved (Some []))"
  then have "route_inv s" using run_route_inv by blast
  with a have e: "routes (session s) = []" by (auto simp: route_inv_def split: if_splits)
  from a show "step cfg (session s) (DirectionsReply r) =
           ((session s)\<lparr>routeError := ''Failed to fetch route: No routes found.'',
                        isLoadingRoute := False\<rparr>, [ConsoleError ''Error fetching route:''])"
    by (auto simp: step_def fetchRoute_reply_def fetchRoute_failed_def)
  from a e show "routes (fst (step cfg (session s) (DirectionsReply r))) = []"
    by (auto simp: step_def fetchRoute_reply_def fetchRoute_failed_def)
next
  assume a: "run step_flat cfg initialSys evs = Some (s, es) \<and> enabled s (DirectionsReply r) \<and>
       (r = Resolved None \<or> r = Resolved (Some []))"
  then have "route_inv s" using run_flat_route_inv by blast
  with a have e: "routes (session s) = []" by (auto simp: route_inv_def split: if_splits)
  from a show "step_flat cfg (session s) (DirectionsReply r) =
           ((session s)\<lparr>routeError := ''Failed to fetch route: No routes found in the API response.'',
                        isLoadingRoute := False\<rparr>, [ConsoleError ''Error fetching route:''])"
    by (auto simp: step_flat_def fetchRoute_reply_flat_def fetchRoute_failed_flat_def setters)
  from a e show "routes (fst (step_flat cfg (session s) (DirectionsReply r))) = []"
    by (auto simp: step_flat_def fetchRoute_reply_flat_def fetchRoute_failed_flat_def setters)
qed

theorem fetchRoute_configuration_and_empty_result_witness:
  "origin readyState \<noteq> None \<and> destination readyState \<noteq> None \<and> orsKey cfgNoKey = ''''
   \<and> fetchRoute cfgNoKey readyState = (readyState\<lparr>routeError := ''API key is missing.''\<rparr>, [])
   \<and> run step cfg0 initialSys loadingEvents = Some (loadingSys, loadingEffects)
   \<and> run step_flat cfg0 initialSys loadingEvents = Some (loadingSys, loadingEffects)
   \<and> enabled loadingSys (DirectionsReply (Resolved (Some [])))
   \<and> step cfg0 (session loadingSys) (DirectionsReply (Resolved (Some []))) =
       (readyState\<lparr>routeError := ''Failed to fetch route: No routes found.''\<rparr>,
        [ConsoleError ''Error fetching route:''])
   \<and> step_flat cfg0 (session loadingSys) (DirectionsReply (Resolved (Some []))) =
       (readyState\<lparr>routeError := ''Failed to fetch route: No routes found in the API response.''\<rparr>,
        [ConsoleError ''Error fetching route:''])
   \<and> routes (fst (step cfg0 (session loadingSys) (DirectionsReply (Resolved (Some []))))) = []"
proof -
  have k: "origin readyState \<noteq> None \<and> destination readyState \<noteq> None \<and> orsKey cfgNoKey = ''''"
    by (simp add: readyState_def cfgNoKey_def)
  have en: "enabled loadingSys (DirectionsReply (Resolved (Some [])))"
    by (simp add: loadingSys_def)
  have u: "\<And>m. (session loadingSys)\<lparr>routeError := m, isLoadingRoute := False\<rparr> = readyState\<lparr>routeError := m\<rparr>"
    by (simp add: loadingSys_def readyState_def initialState_def)
  have rr: "routes readyState = []"
    by (simp add: readyState_def initialState_def)
  from fetchRoute_configuration_and_empty_result
         [of readyState cfgNoKey loadingEvents loadingSys loadingEffects "Resolved (Some [])"]
       fetchRoute_configuration_and_empty_result
         [of readyState cfg0 loadingEvents loadingSys loadingEffects "Resolved (Some [])"]
  show ?thesis
    using k en run_loadingEvents rr by (simp add: u)
qed

text \<open>
  C1 (as the code has it). The reply of a route fetch is merged into the session without any
  comparison of the current origin, destination and mode with those of the request. At most
  one request is in flight at any time, so replies cannot overtake one another. A failed
  reply (a rejection, or no features) leaves the routes, the selected index and the shown
  distance and duration as they are. A successful reply replaces them, whatever the current
  origin, destination and mode are. No reply changes origin, destination or mode.
\<close>

theorem fetchRoute_reply_merges_unconditionally:
  "(run step cfg initialSys evs = Some (s, es) \<or> run step_flat cfg initialSys evs = Some (s, es) \<longrightarrow>
      inflight s \<le> 1)
   \<and> (r = Rejected msg \<or> r = Resolved None \<or> r = Resolved (Some []) \<longrightarrow>
        routes (fst (fetchRoute_reply cfg st r)) = routes st \<and>
        selectedRouteIndex (fst (fetchRoute_reply cfg st r)) = selectedRouteIndex st \<and>
        distance (fst (fetchRoute_reply cfg st r)) = distance st \<and>
        duration (fst (fetchRoute_reply cfg st r)) = duration st \<and>
        routes (fst (fetchRoute_reply_flat cfg st r)) = routes st \<and>
        selectedRouteIndex (fst (fetchRoute_reply_flat cfg st r)) = selectedRouteIndex st \<and>
        distance (fst (fetchRoute_reply_flat cfg st r)) = distance st \<and>
        duration (fst (fetchRoute_reply_flat cfg st r)) = duration st)
   \<and> (fs \<noteq> [] \<longrightarrow>
        routes (fst (fetchRoute_reply cfg st (Resolved (Some fs)))) = map (routeOfFeature cfg) fs \<and>
        selectedRouteIndex (fst (fetchRoute_reply cfg st (Resolved (Some fs)))) = 0 \<and>
        distance (fst (fetchRoute_reply cfg st (Resolved (Some fs)))) =
          route_distance (routeOfFeature cfg (hd fs)) @ '' km'' \<and>
        duration (fst (fetchRoute_reply cfg st (Resolved (Some fs)))) =
          route_duration (routeOfFeature cfg (hd fs)) @ '' min'' \<and>
        fetchRoute_reply_flat cfg st (Resolved (Some fs)) = fetchRoute_reply cfg st (Resolved (Some fs)))
   \<and> origin (fst (fetchRoute_reply cfg st q)) = origin st
   \<and> destination (fst (fetchRoute_reply cfg st q)) = destination st
   \<and> mode (fst (fetchRoute_reply cfg st q)) = mode st
   \<and> origin (fst (fetchRoute_reply_flat cfg st q)) = origin st
   \<and> destination (fst (fetchRoute_reply_flat cfg st q)) = destination st
   \<and> mode (fst (fetchRoute_reply_flat cfg st q)) = mode st"
proof -
  have one: "run step cfg initialSys evs = Some (s, es) \<or> run step_flat cfg initialSys evs = Some (s, es) \<longrightarrow>
      inflight s \<le> 1"
    using run_either_route_inv [of cfg evs s es] by (auto simp: route_inv_def split: if_splits)
  have failed: "r = Rejected msg \<or> r = Resolved None \<or> r = Resolved (Some []) \<longrightarrow>
        routes (fst (fetchRoute_reply cfg st r)) = routes st \<and>
        selectedRouteIndex (fst (fetchRoute_reply cfg st r)) = selectedRouteIndex st \<and>
        distance (fst (fetchRoute_reply cfg st r)) = distance st \<and>
        duration (fst (fetchRoute_reply cfg st r)) = duration st \<and>
        routes (fst (fetchRoute_reply_flat cfg st r)) = routes st \<and>
        selectedRouteIndex (fst (fetchRoute_reply_flat cfg st r)) = selectedRouteIndex st \<and>
        distance (fst (fetchRoute_reply_flat cfg st r)) = distance st \<and>
        duration (fst (fetchRoute_reply_flat cfg st r)) = duration st"
    by (auto simp: fetchRoute_reply_def fetchRoute_reply_flat_def fetchRoute_failed_def
        fetchRoute_failed_flat_def setters)
  have ok: "fs \<noteq> [] \<longrightarrow>
        routes (fst (fetchRoute_reply cfg st (Resolved (Some fs)))) = map (routeOfFeature cfg) fs \<and>
        selectedRouteIndex (fst (fetchRoute_reply cfg st (Resolved (Some fs)))) = 0 \<and>
        distance (fst (fetchRoute_reply cfg st (Resolved (Some fs)))) =
          route_distance (routeOfFeature cfg (hd fs)) @ '' km'' \<and>
        duration (fst (fetchRoute_reply cfg st (Resolved (Some fs)))) =
          route_duration (routeOfFeature cfg (hd fs)) @ '' min'' \<and>
        fetchRoute_reply_flat cfg st (Resolved (Some fs)) = fetchRoute_reply cfg st (Resolved (Some fs))"
    by (cases fs) (simp_all add: fetchRoute_reply_def fetchRoute_reply_flat_def fetchedRoute_eq setters)
  have keep: "origin (fst (fetchRoute_reply cfg st q)) = origin st
   \<and> destination (fst (fetchRoute_reply cfg st q)) = destination st
   \<and> mode (fst (fetchRoute_reply cfg st q)) = mode st
   \<and> origin (fst (fetchRoute_reply_flat cfg st q)) = origin st
   \<and> destination (fst (fetchRoute_reply_flat cfg st q)) = destination st
   \<and> mode (fst (fetchRoute_reply_flat cfg st q)) = mode st"
    by (auto simp: fetchRoute_reply_def fetchRoute_reply_flat_def fetchRoute_failed_def
        fetchRoute_failed_flat_def setters Let_def split: response.splits option.splits list.splits)
  from one failed ok keep show ?thesis by blast
qed

theorem fetchRoute_reply_merges_unconditionally_witness:
  "run step cfg0 initialSys staleEvents = Some (staleSys, loadingEffects)
   \<and> inflight staleSys \<le> 1
   \<and> routes (fst (fetchRoute_reply cfg0 shownState (Resolved (Some [])))) = routes shownState
   \<and> distance (fst (fetchRoute_reply_flat cfg0 shownState (Resolved (Some [])))) = ''4.80 km''
   \<and> [feature1] \<noteq> []
   \<and> routes (fst (fetchRoute_reply cfg0 (session staleSys) (Resolved (Some [feature1])))) =
       [routeOfFeature cfg0 feature1]
   \<and> mode (fst (fetchRoute_reply cfg0 (session staleSys) (Resolved (Some [feature1])))) = ''foot-walking''"
proof -
  have d: "distance shownState = ''4.80 km''" by (simp add: shownState_def)
  have m: "mode (session staleSys) = ''foot-walking''" by (simp add: staleSys_def)
  from fetchRoute_reply_merges_unconditionally
         [of cfg0 staleEvents staleSys loadingEffects "Resolved (Some [])" "''''" shownState "[feature1]"
             "Resolved (Some [feature1])"]
       fetchRoute_reply_merges_unconditionally
         [of cfg0 staleEvents staleSys loadingEffects "Resolved (Some [])" "''''" "session staleSys" "[feature1]"
             "Resolved (Some [feature1])"]
  show ?thesis
    using run_staleEvents(1) d m by simp
qed

theorem stale_reply_overwrites_counterexample:
  "run step cfg0 initialSys staleEvents = Some (staleSys, loadingEffects)
   \<and> run step_flat cfg0 initialSys staleEvents = Some (staleSys, loadingEffects)
   \<and> PostDirections ''https://api.openrouteservice.org/v2/directions/driving-car/geojson''
        [[- 10 / 100, 5150 / 100], [- 8 / 100, 5151 / 100]] ''key'' \<in> set loadingEffects
   \<and> mode (session staleSys) = ''foot-walking''
   \<and> enabled staleSys (DirectionsReply (Resolved (Some [feature1])))
   \<and> routes (session staleSys) = []
   \<and> distance (session staleSys) = ''''
   \<and> routes (fst (step cfg0 (session staleSys) (DirectionsReply (Resolved (Some [feature1]))))) =
       [routeOfFeature cfg0 feature1]
   \<and> distance (fst (step cfg0 (session staleSys) (DirectionsReply (Resolved (Some [feature1]))))) =
       ''12.35 km''
   \<and> routes (fst (step_flat cfg0 (session staleSys) (DirectionsReply (Resolved (Some [feature1]))))) =
       [routeOfFeature cfg0 feature1]
   \<and> distance (fst (step_flat cfg0 (session staleSys) (DirectionsReply (Resolved (Some [feature1]))))) =
       ''12.35 km''"
proof -
  have p: "PostDirections ''https://api.openrouteservice.org/v2/directions/driving-car/geojson''
        [[- 10 / 100, 5150 / 100], [- 8 / 100, 5151 / 100]] ''key'' \<in> set loadingEffects"
    by (simp add: loadingEffects_def)
  have s: "mode (session staleSys) = ''foot-walking''" "routes (session staleSys) = []"
    "distance (session staleSys) = ''''" "enabled staleSys (DirectionsReply (Resolved (Some [feature1])))"
    by (simp_all add: staleSys_def readyState_def initialState_def)
  have d: "route_distance (routeOfFeature cfg0 feature1) = ''12.35''" by code_simp
  have r: "routes (fst (step cfg0 (session staleSys) (DirectionsReply (Resolved (Some [feature1]))))) =
       [routeOfFeature cfg0 feature1]"
    "distance (fst (step cfg0 (session staleSys) (DirectionsReply (Resolved (Some [feature1]))))) =
       ''12.35 km''"
    using d by (simp_all add: step_def fetchRoute_reply_def)
  have f: "routes (fst (step_flat cfg0 (session staleSys) (DirectionsReply (Resolved (Some [feature1]))))) =
       [routeOfFeature cfg0 feature1]"
    "distance (fst (step_flat cfg0 (session staleSys) (DirectionsReply (Resolved (Some [feature1]))))) =
       ''12.35 km''"
    using d by (simp_all add: step_flat_def fetchRoute_reply_flat_def fetchedRoute_eq setters)
  from run_staleEvents p s r f show ?thesis by simp
qed

text \<open>
  C10 (as the code has it). On the same enabled events and replies from the initial state,
  the two components either both stop at the same event or finish with the same effects,
  the same number of requests in flight and sessions that agree in every field, up to the
  wording of the error message in two places: the missing-credential message and the
  message for a reply without routes.
\<close>

theorem components_agree:
  "runs_agree (run step cfg initialSys evs) (run step_flat cfg initialSys evs)"
  by (rule run_agree [OF agree_initial refl])

theorem components_agree_witness:
  "agree (readyState\<lparr>routeError := ''Failed to fetch route: No routes found.''\<rparr>)
         (readyState\<lparr>routeError := ''Failed to fetch route: No routes found in the API response.''\<rparr>)
   \<and> run step cfg0 initialSys emptyReplyEvents =
       Some (\<lparr>session = readyState\<lparr>routeError := ''Failed to fetch route: No routes found.''\<rparr>,
              inflight = 0\<rparr>, loadingEffects @ [ConsoleError ''Error fetching route:''])
   \<and> run step_flat cfg0 initialSys emptyReplyEvents =
       Some (\<lparr>session = readyState\<lparr>routeError := ''Failed to fetch route: No routes found in the API response.''\<rparr>,
              inflight = 0\<rparr>, loadingEffects @ [ConsoleError ''Error fetching route:''])"
proof -
  have h: "run step cfg0 initialSys emptyReplyEvents =
       Some (\<lparr>session = readyState\<lparr>routeError := ''Failed to fetch route: No routes found.''\<rparr>,
              inflight = 0\<rparr>, loadingEffects @ [ConsoleError ''Error fetching route:''])"
    by code_simp
  have f: "run step_flat cfg0 initialSys emptyReplyEvents =
       Some (\<lparr>session = readyState\<lparr>routeError := ''Failed to fetch route: No routes found in the API response.''\<rparr>,
              inflight = 0\<rparr>, loadingEffects @ [ConsoleError ''Error fetching route:''])"
    by code_simp
  from components_agree [of cfg0 emptyReplyEvents] show ?thesis
    unfolding h f by (simp add: runs_agree_def h f)
qed

theorem components_differ_counterexample:
  "run step cfg0 initialSys emptyReplyEvents =
       Some (\<lparr>session = readyState\<lparr>routeError := ''Failed to fetch route: No routes found.''\<rparr>,
              inflight = 0\<rparr>, loadingEffects @ [ConsoleError ''Error fetching route:''])
   \<and> run step_flat cfg0 initialSys emptyReplyEvents =
       Some (\<lparr>session = readyState\<lparr>routeError := ''Failed to fetch route: No routes found in the API response.''\<rparr>,
              inflight = 0\<rparr>, loadingEffects @ [ConsoleError ''Error fetching route:''])
   \<and> \<not> agree_up_to_credential
         (readyState\<lparr>routeError := ''Failed to fetch route: No routes found.''\<rparr>)
         (readyState\<lparr>routeError := ''Failed to fetch route: No routes found in the API response.''\<rparr>)"
proof -
  have h: "run step cfg0 initialSys emptyReplyEvents =
       Some (\<lparr>session = readyState\<lparr>routeError := ''Failed to fetch route: No routes found.''\<rparr>,
              inflight = 0\<rparr>, loadingEffects @ [ConsoleError ''Error fetching route:''])"
    by code_simp
  have f: "run step_flat cfg0 initialSys emptyReplyEvents =
       Some (\<lparr>session = readyState\<lparr>routeError := ''Failed to fetch route: No routes found in the API response.''\<rparr>,
              inflight = 0\<rparr>, loadingEffects @ [ConsoleError ''Error fetching route:''])"
    by code_simp
  have n: "\<not> agree_up_to_credential
         (readyState\<lparr>routeError := ''Failed to fetch route: No routes found.''\<rparr>)
         (readyState\<lparr>routeError := ''Failed to fetch route: No routes found in the API response.''\<rparr>)"
    by (simp add: agree_up_to_credential_def credential_wording_def)
  from h f n show ?thesis by simp
qed

end
